theory Spec2Isabelle
  imports Main "HOL-Library.Word"
begin

unbundle bit_operations_syntax

section \<open>Data model of \<open>slang_rs_export_foreach.cpp\<close>\<close>

subsection \<open>Types of the front end\<close>

text \<open>
  A \<open>clang::QualType\<close> is a type together with its qualifiers. Every type the source
  looks at has gone through \<open>getCanonicalType()\<close>, so the model holds canonical types
  only (typedefs already resolved). \<open>OtherTy\<close> stands for every builtin the source never
  compares against (float, char, ...), \<open>RecordTy\<close> for a struct with its fields.
\<close>

datatype ty =
    VoidTy
  | IntTy
  | UnsignedIntTy
  | OtherTy string
  | PointerTy qualtype
  | RecordTy string "(string \<times> qualtype) list"
and qualtype =
    QualType (isConstQualified: bool) (isVolatileQualified: bool) (getTypePtr: ty)

text \<open>\<open>C.VoidTy\<close>, \<open>C.IntTy\<close>, \<open>C.UnsignedIntTy\<close>: the unqualified builtin types of the
  AST context, as \<open>QualType\<close> values.\<close>

definition C_VoidTy :: qualtype where
  "C_VoidTy = QualType False False VoidTy"

definition C_IntTy :: qualtype where
  "C_IntTy = QualType False False IntTy"

definition C_UnsignedIntTy :: qualtype where
  "C_UnsignedIntTy = QualType False False UnsignedIntTy"

definition getUnqualifiedType :: "qualtype \<Rightarrow> qualtype" where
  "getUnqualifiedType QT = QualType False False (getTypePtr QT)"

definition isPointerType :: "qualtype \<Rightarrow> bool" where
  "isPointerType QT = (case getTypePtr QT of PointerTy _ \<Rightarrow> True | _ \<Rightarrow> False)"

text \<open>\<open>getPointeeType\<close> is only ever called behind \<open>isPointerType() &&\<close>; off a pointer
  it has no pointee.\<close>

definition getPointeeType :: "qualtype \<Rightarrow> qualtype option" where
  "getPointeeType QT = (case getTypePtr QT of PointerTy P \<Rightarrow> Some P | _ \<Rightarrow> None)"

text \<open>\<open>QT->isPointerType() && QT->getPointeeType().isConstQualified()\<close>\<close>

definition isPointerToConst :: "qualtype \<Rightarrow> bool" where
  "isPointerToConst QT =
     (isPointerType QT \<and>
      (case getPointeeType QT of Some P \<Rightarrow> isConstQualified P | None \<Rightarrow> False))"

text \<open>\<open>QT->isPointerType() && !QT->getPointeeType().isConstQualified()\<close>\<close>

definition isPointerToNonConst :: "qualtype \<Rightarrow> bool" where
  "isPointerToNonConst QT =
     (isPointerType QT \<and>
      (case getPointeeType QT of Some P \<Rightarrow> \<not> isConstQualified P | None \<Rightarrow> False))"

subsection \<open>Declarations\<close>

record ParmVarDecl =
  PVD_getName :: string
  PVD_getType :: qualtype

record FunctionDecl =
  FD_getName :: string
  FD_getResultType :: qualtype
  FD_params :: "ParmVarDecl list"

definition getNumParams :: "FunctionDecl \<Rightarrow> nat" where
  "getNumParams FD = length (FD_params FD)"

subsection \<open>Collaborators: exported types, context, version constants\<close>

datatype ExportClass =
    ExportClassPrimitive
  | ExportClassPointer
  | ExportClassVector
  | ExportClassMatrix
  | ExportClassConstantArray
  | ExportClassRecord

record RSExportType =
  getClass :: ExportClass
  exportedFrom :: ty

text \<open>
  The \<open>RSContext\<close>: the target API level, and \<open>RSExportType::Create(Context, T)\<close>, which
  lives in another file of the repository and is taken as a parameter here
  (\<open>None\<close> is its \<open>NULL\<close>).
\<close>

record RSContext =
  getTargetAPI :: int
  RSExportType_Create :: "ty \<Rightarrow> RSExportType option"

text \<open>
  The macros of \<open>slang_version.h\<close> and \<open>slang_rs_export_type.h\<close>, which are not part of
  the source at hand, are parameters of the model.
\<close>

record slang_macros =
  SLANG_MINIMUM_TARGET_API :: int
  SLANG_ICS_TARGET_API :: int
  SLANG_JB_TARGET_API :: int
  DUMMY_RS_TYPE_NAME_PREFIX :: string
  DUMMY_RS_TYPE_NAME_POSTFIX :: string

subsection \<open>Diagnostics and failures\<close>

text \<open>
  One constructor per message that \<open>validateAndConstructParams\<close> and \<open>Create\<close> report,
  with the message's arguments: the function's name, the parameter's name and type, the
  range of SDK levels. \<open>DuplicateParameterEntry\<close> is the message of \<open>ReportNameError\<close>
  (lines 37-49).
\<close>

datatype Diagnostic =
    NonRootKernelNotSupported string int int
  | KernelMustReturnVoid string
  | KernelMustHaveInOrOut string
  | UnexpectedKernelParameter string string qualtype
  | DuplicateParameterEntry string
  | MayNotSkipParameters string int int
  | FailedToExportFunction string

text \<open>
  Modelled from the spec: \<open>slangAssert\<close>, a macro of \<open>slang_assert.h\<close>, which is not part
  of the source at hand. The spec treats a violated contract as a fatal assertion, never
  as a diagnostic: a failed \<open>slangAssert\<close> ends the run, and the string is the asserted
  condition.
\<close>

datatype failure = AssertionFailed string

subsection \<open>The kernel descriptor\<close>

record RSExportForEach =
  mName :: string
  mParamPacketType :: "RSExportType option"
  mInType :: "RSExportType option"
  mOutType :: "RSExportType option"
  numParams :: nat
  mSignatureMetadata :: "32 word"
  mIn :: "ParmVarDecl option"
  mOut :: "ParmVarDecl option"
  mUsrData :: "ParmVarDecl option"
  mX :: "ParmVarDecl option"
  mY :: "ParmVarDecl option"
  mDummyRoot :: bool

text \<open>
  Modelled from the spec: the constructor \<open>RSExportForEach(Context, Name)\<close>, declared in
  \<open>slang_rs_export_foreach.h\<close>, which is not part of the source at hand. The spec's
  descriptor starts with its name, no role slot, no exported type, a bitmask of 0 and
  the placeholder flag off.
\<close>

definition RSExportForEach_new :: "string \<Rightarrow> RSExportForEach" where
  "RSExportForEach_new Name =
     \<lparr> mName = Name, mParamPacketType = None, mInType = None, mOutType = None,
       numParams = 0, mSignatureMetadata = 0,
       mIn = None, mOut = None, mUsrData = None, mX = None, mY = None,
       mDummyRoot = False \<rparr>"

text \<open>
  Modelled from the spec: \<open>isRootRSFunc\<close>, declared in \<open>slang_rs_export_foreach.h\<close>, which
  is not part of the source at hand: an exact match of the function's name against the
  reserved root identifier (\<open>root\<close>, as \<open>CreateDummyRoot\<close> and the diagnostics spell it).
\<close>

definition isRootRSFunc :: "FunctionDecl \<Rightarrow> bool" where
  "isRootRSFunc FD = (FD_getName FD = ''root'')"

section \<open>\<open>RSExportForEach::validateAndConstructParams\<close>\<close>

text \<open>
  The local state of one run: the flag \<open>valid\<close>, the parameter index \<open>i\<close>, the
  descriptor (\<open>this\<close>) and the diagnostics reported so far, oldest first.
\<close>

record vstate =
  st_valid :: bool
  st_i :: nat
  st_this :: RSExportForEach
  st_diags :: "Diagnostic list"

definition report :: "Diagnostic \<Rightarrow> vstate \<Rightarrow> vstate" where
  "report d s = s\<lparr> st_diags := st_diags s @ [d] \<rparr>"

definition invalidate :: "vstate \<Rightarrow> vstate" where
  "invalidate s = s\<lparr> st_valid := False \<rparr>"

text \<open>Lines 79-87: compute kernels are required to return void.\<close>

definition checkReturnType :: "FunctionDecl \<Rightarrow> vstate \<Rightarrow> vstate" where
  "checkReturnType FD s =
     (if FD_getResultType FD \<noteq> C_VoidTy
      then invalidate (report (KernelMustReturnVoid (FD_getName FD)) s)
      else s)"

text \<open>Lines 92-100: \<open>const T1 *in\<close> at position 0 (the caller has checked that
  position 0 exists).\<close>

definition checkIn :: "FunctionDecl \<Rightarrow> vstate \<Rightarrow> vstate" where
  "checkIn FD s =
     (let s = s\<lparr> st_i := 0 \<rparr>;
          PVD = FD_params FD ! st_i s;
          QT = PVD_getType PVD
      in if isPointerToConst QT
         then s\<lparr> st_this := (st_this s)\<lparr> mIn := Some PVD \<rparr>, st_i := st_i s + 1 \<rparr>
         else s)"

text \<open>Lines 102-110: \<open>T2 *out\<close> at the next position.\<close>

definition checkOut :: "FunctionDecl \<Rightarrow> vstate \<Rightarrow> vstate" where
  "checkOut FD s =
     (if st_i s < numParams (st_this s)
      then (let PVD = FD_params FD ! st_i s;
                QT = PVD_getType PVD
            in if isPointerToNonConst QT
               then s\<lparr> st_this := (st_this s)\<lparr> mOut := Some PVD \<rparr>, st_i := st_i s + 1 \<rparr>
               else s)
      else s)"

text \<open>Lines 112-120: at least one of in and out.\<close>

definition checkInOrOut :: "FunctionDecl \<Rightarrow> vstate \<Rightarrow> vstate" where
  "checkInOrOut FD s =
     (if mIn (st_this s) = None \<and> mOut (st_this s) = None
      then invalidate (report (KernelMustHaveInOrOut (FD_getName FD)) s)
      else s)"

text \<open>Lines 122-130: \<open>T3 *usrData\<close> at the next position.\<close>

definition checkUsrData :: "FunctionDecl \<Rightarrow> vstate \<Rightarrow> vstate" where
  "checkUsrData FD s =
     (if st_i s < numParams (st_this s)
      then (let PVD = FD_params FD ! st_i s;
                QT = PVD_getType PVD
            in if isPointerToConst QT
               then s\<lparr> st_this := (st_this s)\<lparr> mUsrData := Some PVD \<rparr>, st_i := st_i s + 1 \<rparr>
               else s)
      else s)"

text \<open>Lines 133-181: the body of the coordinate loop, for the parameter \<open>PVD\<close>.\<close>

definition scanParam :: "FunctionDecl \<Rightarrow> ParmVarDecl \<Rightarrow> vstate \<Rightarrow> vstate" where
  "scanParam FD PVD s =
     (let QT = PVD_getType PVD;
          FE = st_this s;
          unexpected = UnexpectedKernelParameter (FD_getName FD) (PVD_getName PVD) (PVD_getType PVD);
          nameError = DuplicateParameterEntry (PVD_getName PVD)
      in if getUnqualifiedType QT \<noteq> C_UnsignedIntTy
         then invalidate (report unexpected s)
         else if PVD_getName PVD = ''x''
         then (if mX FE \<noteq> None then invalidate (report nameError s)
               else if mY FE \<noteq> None then invalidate (report nameError s)
               else s\<lparr> st_this := FE\<lparr> mX := Some PVD \<rparr> \<rparr>)
         else if PVD_getName PVD = ''y''
         then (if mY FE \<noteq> None then invalidate (report nameError s)
               else s\<lparr> st_this := FE\<lparr> mY := Some PVD \<rparr> \<rparr>)
         else (if mX FE = None \<and> mY FE = None then s\<lparr> st_this := FE\<lparr> mX := Some PVD \<rparr> \<rparr>
               else if mY FE = None then s\<lparr> st_this := FE\<lparr> mY := Some PVD \<rparr> \<rparr>
               else invalidate (report unexpected s)))"

text \<open>Lines 132-184: \<open>while (i < numParams) { ...; i++; }\<close>\<close>

function scanParams :: "FunctionDecl \<Rightarrow> vstate \<Rightarrow> vstate" where
  "scanParams FD s =
     (if st_i s < numParams (st_this s)
      then scanParams FD ((scanParam FD (FD_params FD ! st_i s) s)\<lparr> st_i := st_i s + 1 \<rparr>)
      else s)"
  by pat_completeness auto


lemma numParams_scanParam [simp]:
  "numParams (st_this (scanParam FD PVD s)) = numParams (st_this s)"
  by (simp add: scanParam_def invalidate_def report_def Let_def)

lemma st_i_scanParam [simp]: "st_i (scanParam FD PVD s) = st_i s"
  by (simp add: scanParam_def invalidate_def report_def Let_def)

termination scanParams
  by (relation "measure (\<lambda>(FD, s). numParams (st_this s) - st_i s)") auto

declare scanParams.simps [simp del]

text \<open>Lines 186-194: the bitwise metadata encoding for runtime argument passing.\<close>

definition setSignatureMetadata :: "vstate \<Rightarrow> vstate" where
  "setSignatureMetadata s =
     (let FE = (st_this s)\<lparr> mSignatureMetadata := 0 \<rparr>
      in if st_valid s
         then (let FE = FE\<lparr> mSignatureMetadata :=
                       mSignatureMetadata FE OR (if mIn FE \<noteq> None then 0x01 else 0) \<rparr>;
                   FE = FE\<lparr> mSignatureMetadata :=
                       mSignatureMetadata FE OR (if mOut FE \<noteq> None then 0x02 else 0) \<rparr>;
                   FE = FE\<lparr> mSignatureMetadata :=
                       mSignatureMetadata FE OR (if mUsrData FE \<noteq> None then 0x04 else 0) \<rparr>;
                   FE = FE\<lparr> mSignatureMetadata :=
                       mSignatureMetadata FE OR (if mX FE \<noteq> None then 0x08 else 0) \<rparr>;
                   FE = FE\<lparr> mSignatureMetadata :=
                       mSignatureMetadata FE OR (if mY FE \<noteq> None then 0x10 else 0) \<rparr>
               in s\<lparr> st_this := FE \<rparr>)
         else s\<lparr> st_this := FE \<rparr>)"

text \<open>Lines 196-214: APIs before ICS cannot skip between parameters.\<close>

definition checkSkipParams :: "RSContext \<Rightarrow> slang_macros \<Rightarrow> FunctionDecl \<Rightarrow> vstate \<Rightarrow> vstate" where
  "checkSkipParams Context V FD s =
     (if getTargetAPI Context < SLANG_ICS_TARGET_API V
      then (let m = mSignatureMetadata (st_this s)
            in if m \<noteq> 0x1f \<and> m \<noteq> 0x0f \<and> m \<noteq> 0x07 \<and> m \<noteq> 0x03 \<and> m \<noteq> 0x01
               then invalidate
                      (report (MayNotSkipParameters (FD_getName FD)
                                 (SLANG_MINIMUM_TARGET_API V) (SLANG_ICS_TARGET_API V - 1)) s)
               else s)
      else s)"

text \<open>
  The whole function, on the descriptor \<open>FE\<close> (\<open>this\<close>). It returns \<open>Inl\<close> when the
  assertion on the number of parameters fails, and otherwise \<open>Inr (valid, FE', ds)\<close>:
  the returned flag, the descriptor as the run leaves it and the diagnostics it
  reported, in order.
\<close>

definition validateAndConstructParams ::
  "RSContext \<Rightarrow> slang_macros \<Rightarrow> FunctionDecl \<Rightarrow> RSExportForEach
     \<Rightarrow> failure + (bool \<times> RSExportForEach \<times> Diagnostic list)" where
  "validateAndConstructParams Context V FD FE =
     (let s = \<lparr> st_valid = True, st_i = 0,
                st_this = FE\<lparr> numParams := getNumParams FD \<rparr>, st_diags = [] \<rparr>
      in if \<not> numParams (st_this s) > 0
         then Inl (AssertionFailed ''numParams > 0'')
         else if getTargetAPI Context < SLANG_JB_TARGET_API V \<and> \<not> isRootRSFunc FD
         then (let s = report (NonRootKernelNotSupported (FD_getName FD)
                                 (SLANG_MINIMUM_TARGET_API V) (SLANG_JB_TARGET_API V - 1)) s
               in Inr (False, st_this s, st_diags s))
         else (let s = checkReturnType FD s;
                   s = checkIn FD s;
                   s = checkOut FD s;
                   s = checkInOrOut FD s;
                   s = checkUsrData FD s;
                   s = scanParams FD s;
                   s = setSignatureMetadata s;
                   s = checkSkipParams Context V FD s
               in Inr (st_valid s, st_this s, st_diags s)))"

section \<open>\<open>RSExportForEach::Create\<close> and the other entry points\<close>

text \<open>\<open>FE->mIn\<close>, \<open>FE->mOut\<close>: the exported types of the in and out parameters
  (lines 293-301).\<close>

definition exportInOut :: "RSContext \<Rightarrow> RSExportForEach \<Rightarrow> RSExportForEach" where
  "exportInOut Context FE =
     (let FE = (case mIn FE of
                  Some PVD \<Rightarrow> FE\<lparr> mInType := RSExportType_Create Context (getTypePtr (PVD_getType PVD)) \<rparr>
                | None \<Rightarrow> FE);
          FE = (case mOut FE of
                  Some PVD \<Rightarrow> FE\<lparr> mOutType := RSExportType_Create Context (getTypePtr (PVD_getType PVD)) \<rparr>
                | None \<Rightarrow> FE)
      in FE)"

text \<open>
  \<open>Create\<close> returns \<open>Inl\<close> when an assertion fails, and otherwise the descriptor
  (\<open>None\<close> is \<open>NULL\<close>) with everything reported on the way; the message printed on
  \<open>stderr\<close> when the parameter packet cannot be exported is kept as the last entry.
\<close>

definition Create ::
  "RSContext \<Rightarrow> slang_macros \<Rightarrow> FunctionDecl
     \<Rightarrow> failure + (RSExportForEach option \<times> Diagnostic list)" where
  "Create Context V FD =
     (let Name = FD_getName FD
      in if Name = []
         then Inl (AssertionFailed ''Function must have a name'')
         else (case validateAndConstructParams Context V FD (RSExportForEach_new Name) of
                 Inl e \<Rightarrow> Inl e
               | Inr (ok, FE, ds) \<Rightarrow>
                   if \<not> ok then Inr (None, ds)
                   else (let Id = DUMMY_RS_TYPE_NAME_PREFIX V @ ''helper_foreach_param:''
                                    @ mName FE @ DUMMY_RS_TYPE_NAME_POSTFIX V
                         in case mUsrData FE of
                              None \<Rightarrow> Inr (Some (exportInOut Context FE), ds)
                            | Some PVD \<Rightarrow>
                                (let QT = PVD_getType PVD
                                 in case getPointeeType QT of
                                      None \<Rightarrow> Inl (AssertionFailed ''usrData is a pointer to const'')
                                    | Some P \<Rightarrow>
                                        if \<not> isConstQualified P
                                        then Inl (AssertionFailed ''usrData is a pointer to const'')
                                        else if getUnqualifiedType P = C_VoidTy
                                        then Inr (Some (exportInOut Context (FE\<lparr> mUsrData := None \<rparr>)), ds)
                                        else (case RSExportType_Create Context
                                                     (RecordTy Id [(PVD_getName PVD, P)]) of
                                                None \<Rightarrow> Inr (None, ds @ [FailedToExportFunction (mName FE)])
                                              | Some ET \<Rightarrow>
                                                  if getClass ET \<noteq> ExportClassRecord
                                                  then Inl (AssertionFailed ''Parameter packet must be a record'')
                                                  else Inr (Some (exportInOut Context
                                                                (FE\<lparr> mParamPacketType := Some ET \<rparr>)), ds))))))"

definition CreateDummyRoot :: "RSExportForEach" where
  "CreateDummyRoot = (RSExportForEach_new ''root'')\<lparr> mDummyRoot := True \<rparr>"

text \<open>Lines 314-334.\<close>

definition isGraphicsRootRSFunc :: "slang_macros \<Rightarrow> int \<Rightarrow> FunctionDecl \<Rightarrow> bool" where
  "isGraphicsRootRSFunc V targetAPI FD =
     (if \<not> isRootRSFunc FD then False
      else if getNumParams FD = 0 then True
      else if targetAPI < SLANG_ICS_TARGET_API V \<and> getNumParams FD = 1
      then (if FD_getResultType FD = C_IntTy then True else False)
      else False)"

text \<open>Lines 336-364.\<close>

definition isRSForEachFunc :: "slang_macros \<Rightarrow> int \<Rightarrow> FunctionDecl \<Rightarrow> bool" where
  "isRSForEachFunc V targetAPI FD =
     (if isGraphicsRootRSFunc V targetAPI FD then False
      else if getNumParams FD > 0
      then (if isPointerType (PVD_getType (FD_params FD ! 0)) then True
            else if isRootRSFunc FD then True
            else False)
      else False)"

section \<open>Notions used to state the properties\<close>

text \<open>
  The state in which \<open>validateAndConstructParams\<close> starts on the descriptor \<open>FE\<close>
  (lines 58-62), and the checks of lines 79-184 in sequence.
\<close>

definition initState :: "FunctionDecl \<Rightarrow> RSExportForEach \<Rightarrow> vstate" where
  "initState FD FE =
     \<lparr> st_valid = True, st_i = 0, st_this = FE\<lparr> numParams := getNumParams FD \<rparr>, st_diags = [] \<rparr>"

definition shapeChecks :: "FunctionDecl \<Rightarrow> vstate \<Rightarrow> vstate" where
  "shapeChecks FD s =
     scanParams FD (checkUsrData FD (checkInOrOut FD (checkOut FD (checkIn FD (checkReturnType FD s)))))"

text \<open>
  The diagnostics of the shape checks (return type, missing in/out, unexpected or
  duplicate parameter), and the diagnostic of the compatibility check of lines 196-214.
\<close>

fun isShapeError :: "Diagnostic \<Rightarrow> bool" where
  "isShapeError (KernelMustReturnVoid _) = True"
| "isShapeError (KernelMustHaveInOrOut _) = True"
| "isShapeError (UnexpectedKernelParameter _ _ _) = True"
| "isShapeError (DuplicateParameterEntry _) = True"
| "isShapeError _ = False"

fun isSkipError :: "Diagnostic \<Rightarrow> bool" where
  "isSkipError (MayNotSkipParameters _ _ _) = True"
| "isSkipError _ = False"

text \<open>
  The bitmask of the data model: bit 0x01 for Input, 0x02 for Output, 0x04 for UserData,
  0x08 for CoordX, 0x10 for CoordY, each set iff the slot is non-empty. \<open>legacyMasks\<close>
  are the five values the compatibility check of lines 199-203 lets through.
\<close>

definition roleMask :: "RSExportForEach \<Rightarrow> 32 word" where
  "roleMask FE =
     (if mIn FE \<noteq> None then 0x01 else 0) OR (if mOut FE \<noteq> None then 0x02 else 0) OR
     (if mUsrData FE \<noteq> None then 0x04 else 0) OR (if mX FE \<noteq> None then 0x08 else 0) OR
     (if mY FE \<noteq> None then 0x10 else 0)"

definition legacyMasks :: "32 word set" where
  "legacyMasks = {0x01, 0x03, 0x07, 0x0F, 0x1F}"

subsection \<open>Concrete inputs\<close>

text \<open>
  Sample values for the macros (the Android API levels 11 for the minimum, 14 for ICS and
  16 for JB), a context whose type exporter exports every type, and shorthands for
  declarations. The theorems below hold for every value of the macros; only the concrete
  runs use these.
\<close>

definition aosp_macros :: slang_macros where
  "aosp_macros = \<lparr> SLANG_MINIMUM_TARGET_API = 11, SLANG_ICS_TARGET_API = 14,
     SLANG_JB_TARGET_API = 16, DUMMY_RS_TYPE_NAME_PREFIX = ''<'',
     DUMMY_RS_TYPE_NAME_POSTFIX = ''>'' \<rparr>"

definition exportEvery :: "ty \<Rightarrow> RSExportType option" where
  "exportEvery T =
     Some \<lparr> getClass = (case T of RecordTy _ _ \<Rightarrow> ExportClassRecord
                               | PointerTy _ \<Rightarrow> ExportClassPointer
                               | _ \<Rightarrow> ExportClassPrimitive),
            exportedFrom = T \<rparr>"

definition contextAt :: "int \<Rightarrow> RSContext" where
  "contextAt api = \<lparr> getTargetAPI = api, RSExportType_Create = exportEvery \<rparr>"

definition constPtr :: "ty \<Rightarrow> qualtype" where
  "constPtr T = QualType False False (PointerTy (QualType True False T))"

definition mutPtr :: "ty \<Rightarrow> qualtype" where
  "mutPtr T = QualType False False (PointerTy (QualType False False T))"

definition param :: "string \<Rightarrow> qualtype \<Rightarrow> ParmVarDecl" where
  "param n T = \<lparr> PVD_getName = n, PVD_getType = T \<rparr>"

definition kernel :: "string \<Rightarrow> ParmVarDecl list \<Rightarrow> FunctionDecl" where
  "kernel n ps = \<lparr> FD_getName = n, FD_getResultType = C_VoidTy, FD_params = ps \<rparr>"

text \<open>
  Two kernels with a user-data parameter, a \<open>const void *\<close> and a \<open>const int *\<close>, and the
  descriptors \<open>Create\<close> builds for them.
\<close>

definition voidUsrKernel :: FunctionDecl where
  "voidUsrKernel =
     kernel ''foo'' [param ''in'' (constPtr IntTy), param ''out'' (mutPtr IntTy),
                     param ''usr'' (constPtr VoidTy)]"

definition voidUsrDescriptor :: RSExportForEach where
  "voidUsrDescriptor =
     (RSExportForEach_new ''foo'')\<lparr>
        mInType := exportEvery (PointerTy (QualType True False IntTy)),
        mOutType := exportEvery (PointerTy (QualType False False IntTy)),
        numParams := 3, mSignatureMetadata := 0x07,
        mIn := Some (param ''in'' (constPtr IntTy)),
        mOut := Some (param ''out'' (mutPtr IntTy)),
        mUsrData := None \<rparr>"

definition typedUsrKernel :: FunctionDecl where
  "typedUsrKernel =
     kernel ''foo'' [param ''in'' (constPtr IntTy), param ''usr'' (constPtr IntTy),
                     param ''x'' C_UnsignedIntTy]"

definition typedUsrDescriptor :: RSExportForEach where
  "typedUsrDescriptor =
     (RSExportForEach_new ''foo'')\<lparr>
        mParamPacketType :=
          exportEvery (RecordTy ''<helper_foreach_param:foo>'' [(''usr'', QualType True False IntTy)]),
        mInType := exportEvery (PointerTy (QualType True False IntTy)),
        numParams := 3, mSignatureMetadata := 0x0D,
        mIn := Some (param ''in'' (constPtr IntTy)),
        mUsrData := Some (param ''usr'' (constPtr IntTy)),
        mX := Some (param ''x'' C_UnsignedIntTy) \<rparr>"

section \<open>The run of \<open>validateAndConstructParams\<close>, phase by phase\<close>

lemma validate_unfold:
  "validateAndConstructParams Context V FD FE =
     (if FD_params FD = [] then Inl (AssertionFailed ''numParams > 0'')
      else if getTargetAPI Context < SLANG_JB_TARGET_API V \<and> \<not> isRootRSFunc FD
      then Inr (False, FE\<lparr> numParams := getNumParams FD \<rparr>,
                [NonRootKernelNotSupported (FD_getName FD)
                   (SLANG_MINIMUM_TARGET_API V) (SLANG_JB_TARGET_API V - 1)])
      else (let s = checkSkipParams Context V FD (setSignatureMetadata (shapeChecks FD (initState FD FE)))
            in Inr (st_valid s, st_this s, st_diags s)))"
  by (simp add: validateAndConstructParams_def shapeChecks_def initState_def Let_def report_def
      getNumParams_def)

lemma scanParam_effect:
  "\<exists>more. st_diags (scanParam FD PVD s) = st_diags s @ more \<and>
          (\<forall>d\<in>set more. isShapeError d) \<and>
          st_valid (scanParam FD PVD s) = (st_valid s \<and> more = [])"
  by (simp add: scanParam_def invalidate_def report_def Let_def)

lemma scanParam_frame [simp]:
  "mIn (st_this (scanParam FD PVD s)) = mIn (st_this s)"
  "mOut (st_this (scanParam FD PVD s)) = mOut (st_this s)"
  "mUsrData (st_this (scanParam FD PVD s)) = mUsrData (st_this s)"
  "mName (st_this (scanParam FD PVD s)) = mName (st_this s)"
  by (simp_all add: scanParam_def invalidate_def report_def Let_def)

lemma scanParams_step:
  "st_i s < numParams (st_this s) \<Longrightarrow>
   scanParams FD s = scanParams FD ((scanParam FD (FD_params FD ! st_i s) s)\<lparr> st_i := st_i s + 1 \<rparr>)"
  by (subst scanParams.simps) simp

lemma scanParams_stop:
  "\<not> st_i s < numParams (st_this s) \<Longrightarrow> scanParams FD s = s"
  by (subst scanParams.simps) simp

lemma scanParams_frame [simp]:
  "mIn (st_this (scanParams FD s)) = mIn (st_this s) \<and>
   mOut (st_this (scanParams FD s)) = mOut (st_this s) \<and>
   mUsrData (st_this (scanParams FD s)) = mUsrData (st_this s) \<and>
   mName (st_this (scanParams FD s)) = mName (st_this s) \<and>
   numParams (st_this (scanParams FD s)) = numParams (st_this s)"
proof (induction FD s rule: scanParams.induct)
  case (1 FD s)
  show ?case
  proof (cases "st_i s < numParams (st_this s)")
    case True
    then show ?thesis using "1.IH" by (simp add: scanParams_step)
  next
    case False
    then show ?thesis by (simp add: scanParams_stop)
  qed
qed

lemma scanParams_effect:
  "\<exists>more. st_diags (scanParams FD s) = st_diags s @ more \<and>
          (\<forall>d\<in>set more. isShapeError d) \<and>
          st_valid (scanParams FD s) = (st_valid s \<and> more = [])"
proof (induction FD s rule: scanParams.induct)
  case (1 FD s)
  show ?case
  proof (cases "st_i s < numParams (st_this s)")
    case True
    let ?s1 = "scanParam FD (FD_params FD ! st_i s) s"
    let ?s2 = "?s1\<lparr> st_i := st_i s + 1 \<rparr>"
    obtain m1 where m1: "st_diags ?s1 = st_diags s @ m1" "\<forall>d\<in>set m1. isShapeError d"
      "st_valid ?s1 = (st_valid s \<and> m1 = [])"
      using scanParam_effect [of FD "FD_params FD ! st_i s" s] by blast
    obtain m2 where m2: "st_diags (scanParams FD ?s2) = st_diags ?s2 @ m2"
      "\<forall>d\<in>set m2. isShapeError d" "st_valid (scanParams FD ?s2) = (st_valid ?s2 \<and> m2 = [])"
      using "1.IH" [OF True] by blast
    have eq: "scanParams FD s = scanParams FD ?s2" using True by (rule scanParams_step)
    have "st_diags (scanParams FD s) = st_diags s @ (m1 @ m2)" using eq m1 m2 by simp
    moreover have "\<forall>d\<in>set (m1 @ m2). isShapeError d" using m1 m2 by auto
    moreover have "st_valid (scanParams FD s) = (st_valid s \<and> m1 @ m2 = [])"
      using eq m1 m2 by auto
    ultimately show ?thesis by blast
  next
    case False
    then show ?thesis by (simp add: scanParams_stop)
  qed
qed


lemma setSignatureMetadata_eq:
  "setSignatureMetadata s =
     s\<lparr> st_this := (st_this s)\<lparr> mSignatureMetadata :=
            (if st_valid s then roleMask (st_this s) else 0) \<rparr> \<rparr>"
  by (simp add: setSignatureMetadata_def roleMask_def Let_def)

lemma checkSkipParams_eq:
  "checkSkipParams Context V FD s =
     (if getTargetAPI Context < SLANG_ICS_TARGET_API V \<and>
         mSignatureMetadata (st_this s) \<notin> legacyMasks
      then s\<lparr> st_valid := False,
              st_diags := st_diags s @ [MayNotSkipParameters (FD_getName FD)
                 (SLANG_MINIMUM_TARGET_API V) (SLANG_ICS_TARGET_API V - 1)] \<rparr>
      else s)"
  by (auto simp add: checkSkipParams_def legacyMasks_def Let_def invalidate_def report_def)

lemma checkIn_frame [simp]:
  "st_valid (checkIn FD s) = st_valid s"
  "st_diags (checkIn FD s) = st_diags s"
  by (simp_all add: checkIn_def Let_def)

lemma checkOut_frame [simp]:
  "st_valid (checkOut FD s) = st_valid s"
  "st_diags (checkOut FD s) = st_diags s"
  by (simp_all add: checkOut_def Let_def)

lemma checkUsrData_frame [simp]:
  "st_valid (checkUsrData FD s) = st_valid s"
  "st_diags (checkUsrData FD s) = st_diags s"
  "mIn (st_this (checkUsrData FD s)) = mIn (st_this s)"
  "mOut (st_this (checkUsrData FD s)) = mOut (st_this s)"
  by (simp_all add: checkUsrData_def Let_def)

lemma checkInOrOut_frame [simp]:
  "st_this (checkInOrOut FD s) = st_this s"
  "st_i (checkInOrOut FD s) = st_i s"
  by (simp_all add: checkInOrOut_def invalidate_def report_def)

lemma checkInOrOut_effect:
  "st_diags (checkInOrOut FD s) =
     st_diags s @ (if mIn (st_this s) = None \<and> mOut (st_this s) = None
                   then [KernelMustHaveInOrOut (FD_getName FD)] else [])"
  "st_valid (checkInOrOut FD s) =
     (st_valid s \<and> \<not> (mIn (st_this s) = None \<and> mOut (st_this s) = None))"
  by (simp_all add: checkInOrOut_def invalidate_def report_def)

lemma checkReturnType_effect:
  "st_this (checkReturnType FD s) = st_this s"
  "st_i (checkReturnType FD s) = st_i s"
  "st_diags (checkReturnType FD s) =
     st_diags s @ (if FD_getResultType FD \<noteq> C_VoidTy
                   then [KernelMustReturnVoid (FD_getName FD)] else [])"
  "st_valid (checkReturnType FD s) = (st_valid s \<and> FD_getResultType FD = C_VoidTy)"
  by (simp_all add: checkReturnType_def invalidate_def report_def)

lemma initState_simps [simp]:
  "st_valid (initState FD FE) = True"
  "st_i (initState FD FE) = 0"
  "st_this (initState FD FE) = FE\<lparr> numParams := getNumParams FD \<rparr>"
  "st_diags (initState FD FE) = []"
  by (simp_all add: initState_def)

lemma preScan_effect:
  fixes FD FE
  defines "s1 \<equiv> checkUsrData FD (checkInOrOut FD (checkOut FD (checkIn FD
                   (checkReturnType FD (initState FD FE)))))"
  shows "st_valid s1 = (st_diags s1 = [])"
    and "\<forall>d\<in>set (st_diags s1). isShapeError d"
    and "st_valid s1 \<Longrightarrow> mIn (st_this s1) \<noteq> None \<or> mOut (st_this s1) \<noteq> None"
  unfolding s1_def
  by (auto simp add: checkInOrOut_effect checkReturnType_effect)

lemma shapeChecks_effect:
  fixes FD FE
  defines "s \<equiv> shapeChecks FD (initState FD FE)"
  shows "st_valid s = (st_diags s = [])"
    and "\<forall>d\<in>set (st_diags s). isShapeError d"
    and "st_valid s \<Longrightarrow> mIn (st_this s) \<noteq> None \<or> mOut (st_this s) \<noteq> None"
proof -
  define s1 where "s1 = checkUsrData FD (checkInOrOut FD (checkOut FD (checkIn FD
                   (checkReturnType FD (initState FD FE)))))"
  have s: "s = scanParams FD s1" by (simp add: s_def s1_def shapeChecks_def)
  obtain more where more: "st_diags s = st_diags s1 @ more" "\<forall>d\<in>set more. isShapeError d"
    "st_valid s = (st_valid s1 \<and> more = [])"
    unfolding s using scanParams_effect [of FD s1] by blast
  have p1: "st_valid s1 = (st_diags s1 = [])" unfolding s1_def by (rule preScan_effect(1))
  have p2: "\<forall>d\<in>set (st_diags s1). isShapeError d" unfolding s1_def by (rule preScan_effect(2))
  show "st_valid s = (st_diags s = [])" using more p1 by simp
  show "\<forall>d\<in>set (st_diags s). isShapeError d" using more p2 by auto
  assume a: "st_valid s"
  then have "st_valid s1" using more by simp
  then have "mIn (st_this s1) \<noteq> None \<or> mOut (st_this s1) \<noteq> None"
    unfolding s1_def by (rule preScan_effect(3))
  then show "mIn (st_this s) \<noteq> None \<or> mOut (st_this s) \<noteq> None"
    unfolding s by simp
qed


lemma validate_Inr:
  assumes "validateAndConstructParams Context V FD FE0 = Inr (ok, FE, ds)"
  shows "FD_params FD \<noteq> []"
    and "getTargetAPI Context < SLANG_JB_TARGET_API V \<and> \<not> isRootRSFunc FD \<Longrightarrow>
           \<not> ok \<and> FE = FE0\<lparr> numParams := getNumParams FD \<rparr> \<and>
           ds = [NonRootKernelNotSupported (FD_getName FD)
                   (SLANG_MINIMUM_TARGET_API V) (SLANG_JB_TARGET_API V - 1)]"
    and "\<not> (getTargetAPI Context < SLANG_JB_TARGET_API V \<and> \<not> isRootRSFunc FD) \<Longrightarrow>
           (let s = shapeChecks FD (initState FD FE0);
                m = (if st_valid s then roleMask (st_this s) else 0);
                skip = (getTargetAPI Context < SLANG_ICS_TARGET_API V \<and> m \<notin> legacyMasks)
            in FE = (st_this s)\<lparr> mSignatureMetadata := m \<rparr> \<and>
               ds = st_diags s @ (if skip then [MayNotSkipParameters (FD_getName FD)
                      (SLANG_MINIMUM_TARGET_API V) (SLANG_ICS_TARGET_API V - 1)] else []) \<and>
               ok = (st_valid s \<and> \<not> skip))"
proof -
  show "FD_params FD \<noteq> []" using assms by (auto simp add: validate_unfold)
  show "getTargetAPI Context < SLANG_JB_TARGET_API V \<and> \<not> isRootRSFunc FD \<Longrightarrow>
           \<not> ok \<and> FE = FE0\<lparr> numParams := getNumParams FD \<rparr> \<and>
           ds = [NonRootKernelNotSupported (FD_getName FD)
                   (SLANG_MINIMUM_TARGET_API V) (SLANG_JB_TARGET_API V - 1)]"
    using assms by (auto simp add: validate_unfold split: if_splits)
  show "\<not> (getTargetAPI Context < SLANG_JB_TARGET_API V \<and> \<not> isRootRSFunc FD) \<Longrightarrow>
           (let s = shapeChecks FD (initState FD FE0);
                m = (if st_valid s then roleMask (st_this s) else 0);
                skip = (getTargetAPI Context < SLANG_ICS_TARGET_API V \<and> m \<notin> legacyMasks)
            in FE = (st_this s)\<lparr> mSignatureMetadata := m \<rparr> \<and>
               ds = st_diags s @ (if skip then [MayNotSkipParameters (FD_getName FD)
                      (SLANG_MINIMUM_TARGET_API V) (SLANG_ICS_TARGET_API V - 1)] else []) \<and>
               ok = (st_valid s \<and> \<not> skip))"
    using assms
    by (auto simp add: validate_unfold setSignatureMetadata_eq checkSkipParams_eq Let_def
        split: if_splits)
qed

lemma roleMask_frame [simp]: "roleMask (FE\<lparr> mSignatureMetadata := m \<rparr>) = roleMask FE"
  by (simp add: roleMask_def)

lemma roleMask_nonzero: "mIn FE \<noteq> None \<or> mOut FE \<noteq> None \<Longrightarrow> roleMask FE \<noteq> 0"
  by (auto simp add: roleMask_def)

lemma zero_notin_legacyMasks [simp]: "0 \<notin> legacyMasks"
  by (simp add: legacyMasks_def)

lemma shapeError_not_skip: "isShapeError d \<Longrightarrow> \<not> isSkipError d"
  by (cases d) simp_all

lemma checkOut_mIn [simp]: "mIn (st_this (checkOut FD s)) = mIn (st_this s)"
  by (simp add: checkOut_def Let_def)

lemma preScan_no_in_or_out:
  fixes FD FE0
  defines "s1 \<equiv> checkUsrData FD (checkInOrOut FD (checkOut FD (checkIn FD
                   (checkReturnType FD (initState FD FE0)))))"
  assumes ne: "FD_params FD \<noteq> []"
    and fresh: "mIn FE0 = None" "mOut FE0 = None"
    and none: "mIn (st_this s1) = None" "mOut (st_this s1) = None"
  shows "s1 = \<lparr> st_valid = False, st_i = 0,
               st_this = FE0\<lparr> numParams := getNumParams FD \<rparr>,
               st_diags = (if FD_getResultType FD \<noteq> C_VoidTy
                           then [KernelMustReturnVoid (FD_getName FD)] else [])
                          @ [KernelMustHaveInOrOut (FD_getName FD)] \<rparr>"
proof -
  define sr where "sr = checkReturnType FD (initState FD FE0)"
  define q0 where "q0 = PVD_getType (FD_params FD ! 0)"
  have n: "0 < getNumParams FD" using ne by (simp add: getNumParams_def)
  have sr: "sr = \<lparr> st_valid = (FD_getResultType FD = C_VoidTy), st_i = 0,
                   st_this = FE0\<lparr> numParams := getNumParams FD \<rparr>,
                   st_diags = (if FD_getResultType FD \<noteq> C_VoidTy
                               then [KernelMustReturnVoid (FD_getName FD)] else []) \<rparr>"
    by (simp add: sr_def checkReturnType_def initState_def invalidate_def report_def)
  have notIn: "\<not> isPointerToConst q0"
  proof
    assume "isPointerToConst q0"
    then have "mIn (st_this (checkIn FD sr)) \<noteq> None"
      by (simp add: checkIn_def q0_def Let_def)
    then show False using none(1) by (simp add: s1_def sr_def)
  qed
  then have cin: "checkIn FD sr = sr" by (simp add: checkIn_def q0_def Let_def sr)
  have notOut: "\<not> isPointerToNonConst q0"
  proof
    assume "isPointerToNonConst q0"
    then have "mOut (st_this (checkOut FD sr)) \<noteq> None"
      using n by (simp add: checkOut_def q0_def Let_def sr)
    then show False using none(2) by (simp add: s1_def sr_def [symmetric] cin)
  qed
  then have cout: "checkOut FD sr = sr" by (simp add: checkOut_def q0_def Let_def sr)
  define si where "si = checkInOrOut FD sr"
  have si: "si = \<lparr> st_valid = False, st_i = 0,
               st_this = FE0\<lparr> numParams := getNumParams FD \<rparr>,
               st_diags = (if FD_getResultType FD \<noteq> C_VoidTy
                           then [KernelMustReturnVoid (FD_getName FD)] else [])
                          @ [KernelMustHaveInOrOut (FD_getName FD)] \<rparr>"
    using fresh by (simp add: si_def checkInOrOut_def invalidate_def report_def sr)
  have "checkUsrData FD si = si"
    using notIn by (simp add: checkUsrData_def q0_def Let_def si)
  then show ?thesis by (simp add: s1_def sr_def [symmetric] cin cout si_def [symmetric] si)
qed

lemma exportInOut_frame [simp]:
  "mIn (exportInOut Context FE) = mIn FE"
  "mOut (exportInOut Context FE) = mOut FE"
  "mUsrData (exportInOut Context FE) = mUsrData FE"
  "mX (exportInOut Context FE) = mX FE"
  "mY (exportInOut Context FE) = mY FE"
  "mSignatureMetadata (exportInOut Context FE) = mSignatureMetadata FE"
  by (simp_all add: exportInOut_def Let_def split: option.splits)

lemma roleMask_bits:
  "(roleMask FE AND 0x01 \<noteq> 0) = (mIn FE \<noteq> None)"
  "(roleMask FE AND 0x02 \<noteq> 0) = (mOut FE \<noteq> None)"
  "(roleMask FE AND 0x04 \<noteq> 0) = (mUsrData FE \<noteq> None)"
  "(roleMask FE AND 0x08 \<noteq> 0) = (mX FE \<noteq> None)"
  "(roleMask FE AND 0x10 \<noteq> 0) = (mY FE \<noteq> None)"
  by (simp_all add: roleMask_def)

lemma validate_True_mask:
  assumes "validateAndConstructParams Context V FD FE0 = Inr (True, FE, ds)"
  shows "mSignatureMetadata FE = roleMask FE"
proof -
  have jbOk: "\<not> (getTargetAPI Context < SLANG_JB_TARGET_API V \<and> \<not> isRootRSFunc FD)"
    using validate_Inr(2) [OF assms] by blast
  from validate_Inr(3) [OF assms jbOk] show ?thesis by (auto simp add: Let_def)
qed

lemma Create_Some:
  assumes cr: "Create Context V FD = Inr (Some FE, ds)"
  shows "\<exists>FE0. validateAndConstructParams Context V FD (RSExportForEach_new (FD_getName FD))
                 = Inr (True, FE0, ds) \<and>
               mSignatureMetadata FE = mSignatureMetadata FE0 \<and>
               mIn FE = mIn FE0 \<and> mOut FE = mOut FE0 \<and> mX FE = mX FE0 \<and> mY FE = mY FE0 \<and>
               mUsrData FE =
                 (case mUsrData FE0 of
                    None \<Rightarrow> None
                  | Some PVD \<Rightarrow>
                      (case getPointeeType (PVD_getType PVD) of
                         None \<Rightarrow> None
                       | Some P \<Rightarrow> if getUnqualifiedType P = C_VoidTy then None else Some PVD))"
  using cr
  by (auto simp add: Create_def Let_def split: if_splits sum.splits option.splits prod.splits)

section \<open>Properties\<close>

text \<open>
  C1, as the code has it. In a descriptor that \<open>Create\<close> returns, the bits 0x01, 0x02,
  0x08 and 0x10 of the bitmask are set iff Input, Output, CoordX and CoordY are
  non-empty. The bit 0x04 is set iff classification assigned UserData: iff the UserData
  slot is non-empty, or \<open>Create\<close> has cleared it because its pointee is \<open>void\<close>. In that
  case the slot is empty and the bit stays set; in every other case the slot is the one
  classification left. The bitmask is the one \<open>validateAndConstructParams\<close> computed;
  clearing the slot does not change it.
\<close>

theorem Create_signatureMetadata:
  assumes cr: "Create Context V FD = Inr (Some FE, ds)"
  shows "\<exists>FE0. validateAndConstructParams Context V FD (RSExportForEach_new (FD_getName FD))
                 = Inr (True, FE0, ds) \<and>
           (mSignatureMetadata FE AND 0x01 \<noteq> 0) = (mIn FE \<noteq> None) \<and>
           (mSignatureMetadata FE AND 0x02 \<noteq> 0) = (mOut FE \<noteq> None) \<and>
           (mSignatureMetadata FE AND 0x04 \<noteq> 0) =
              (mUsrData FE \<noteq> None \<or>
               (\<exists>PVD P. mUsrData FE0 = Some PVD \<and> getPointeeType (PVD_getType PVD) = Some P \<and>
                        getUnqualifiedType P = C_VoidTy)) \<and>
           (mSignatureMetadata FE AND 0x08 \<noteq> 0) = (mX FE \<noteq> None) \<and>
           (mSignatureMetadata FE AND 0x10 \<noteq> 0) = (mY FE \<noteq> None) \<and>
           mUsrData FE =
              (if \<exists>PVD P. mUsrData FE0 = Some PVD \<and> getPointeeType (PVD_getType PVD) = Some P \<and>
                          getUnqualifiedType P = C_VoidTy
               then None else mUsrData FE0) \<and>
           (mSignatureMetadata FE AND 0x04 \<noteq> 0) = (mUsrData FE0 \<noteq> None) \<and>
           mSignatureMetadata FE = mSignatureMetadata FE0"
proof -
  from Create_Some [OF cr] obtain FE0 where
    v: "validateAndConstructParams Context V FD (RSExportForEach_new (FD_getName FD))
          = Inr (True, FE0, ds)"
    and mask: "mSignatureMetadata FE = mSignatureMetadata FE0"
    and slots: "mIn FE = mIn FE0" "mOut FE = mOut FE0" "mX FE = mX FE0" "mY FE = mY FE0"
    and usr: "mUsrData FE =
                 (case mUsrData FE0 of
                    None \<Rightarrow> None
                  | Some PVD \<Rightarrow>
                      (case getPointeeType (PVD_getType PVD) of
                         None \<Rightarrow> None
                       | Some P \<Rightarrow> if getUnqualifiedType P = C_VoidTy then None else Some PVD))"
    by blast
  have m: "mSignatureMetadata FE = roleMask FE0" using validate_True_mask [OF v] mask by simp
  have ptr: "\<And>PVD. mUsrData FE0 = Some PVD \<Longrightarrow> getPointeeType (PVD_getType PVD) \<noteq> None"
    using cr v by (auto simp add: Create_def Let_def split: if_splits option.splits)
  have b4: "(mUsrData FE0 \<noteq> None) =
              (mUsrData FE \<noteq> None \<or>
               (\<exists>PVD P. mUsrData FE0 = Some PVD \<and> getPointeeType (PVD_getType PVD) = Some P \<and>
                        getUnqualifiedType P = C_VoidTy))"
    using usr ptr by (auto split: option.splits if_splits)
  have slot: "mUsrData FE =
              (if \<exists>PVD P. mUsrData FE0 = Some PVD \<and> getPointeeType (PVD_getType PVD) = Some P \<and>
                          getUnqualifiedType P = C_VoidTy
               then None else mUsrData FE0)"
    using usr ptr by (auto split: option.splits if_splits)
  have b4': "(mSignatureMetadata FE AND 0x04 \<noteq> 0) = (mUsrData FE0 \<noteq> None)"
    by (simp add: m roleMask_bits)
  have bits: "(mSignatureMetadata FE AND 0x01 \<noteq> 0) = (mIn FE \<noteq> None)"
    "(mSignatureMetadata FE AND 0x02 \<noteq> 0) = (mOut FE \<noteq> None)"
    "(mSignatureMetadata FE AND 0x08 \<noteq> 0) = (mX FE \<noteq> None)"
    "(mSignatureMetadata FE AND 0x10 \<noteq> 0) = (mY FE \<noteq> None)"
    by (simp_all add: m roleMask_bits slots)
  have b4'': "(mSignatureMetadata FE AND 0x04 \<noteq> 0) =
              (mUsrData FE \<noteq> None \<or>
               (\<exists>PVD P. mUsrData FE0 = Some PVD \<and> getPointeeType (PVD_getType PVD) = Some P \<and>
                        getUnqualifiedType P = C_VoidTy))"
    using b4 b4' by simp
  show ?thesis
    using v bits b4'' slot b4' mask by (intro exI [of _ FE0]) blast
qed

theorem Create_signatureMetadata_witness:
  "Create (contextAt 16) aosp_macros typedUsrKernel = Inr (Some typedUsrDescriptor, []) \<and>
   mSignatureMetadata typedUsrDescriptor = 0x0D \<and>
   mSignatureMetadata typedUsrDescriptor AND 0x01 \<noteq> 0 \<and> mIn typedUsrDescriptor \<noteq> None \<and>
   mSignatureMetadata typedUsrDescriptor AND 0x02 = 0 \<and> mOut typedUsrDescriptor = None \<and>
   mSignatureMetadata typedUsrDescriptor AND 0x04 \<noteq> 0 \<and> mUsrData typedUsrDescriptor \<noteq> None \<and>
   mSignatureMetadata typedUsrDescriptor AND 0x08 \<noteq> 0 \<and> mX typedUsrDescriptor \<noteq> None \<and>
   mSignatureMetadata typedUsrDescriptor AND 0x10 = 0 \<and> mY typedUsrDescriptor = None \<and>
   Create (contextAt 16) aosp_macros voidUsrKernel = Inr (Some voidUsrDescriptor, []) \<and>
   validateAndConstructParams (contextAt 16) aosp_macros voidUsrKernel
       (RSExportForEach_new (FD_getName voidUsrKernel))
     = Inr (True,
            (RSExportForEach_new ''foo'')\<lparr> numParams := 3, mSignatureMetadata := 0x07,
               mIn := Some (param ''in'' (constPtr IntTy)),
               mOut := Some (param ''out'' (mutPtr IntTy)),
               mUsrData := Some (param ''usr'' (constPtr VoidTy)) \<rparr>,
            []) \<and>
   getPointeeType (PVD_getType (param ''usr'' (constPtr VoidTy))) = Some (QualType True False VoidTy) \<and>
   getUnqualifiedType (QualType True False VoidTy) = C_VoidTy \<and>
   mUsrData voidUsrDescriptor = None \<and>
   mSignatureMetadata voidUsrDescriptor AND 0x04 \<noteq> 0"
proof -
  let ?FE0 = "(RSExportForEach_new ''foo'')\<lparr> numParams := 3, mSignatureMetadata := 0x07,
               mIn := Some (param ''in'' (constPtr IntTy)),
               mOut := Some (param ''out'' (mutPtr IntTy)),
               mUsrData := Some (param ''usr'' (constPtr VoidTy)) \<rparr>"
  have run: "Create (contextAt 16) aosp_macros typedUsrKernel = Inr (Some typedUsrDescriptor, [])"
    by code_simp
  have slots: "mIn typedUsrDescriptor \<noteq> None" "mOut typedUsrDescriptor = None"
    "mUsrData typedUsrDescriptor \<noteq> None" "mX typedUsrDescriptor \<noteq> None"
    "mY typedUsrDescriptor = None" "mSignatureMetadata typedUsrDescriptor = 0x0D"
    by (simp_all add: typedUsrDescriptor_def RSExportForEach_new_def)
  have typed: "mSignatureMetadata typedUsrDescriptor AND 0x01 \<noteq> 0"
    "mSignatureMetadata typedUsrDescriptor AND 0x02 = 0"
    "mSignatureMetadata typedUsrDescriptor AND 0x04 \<noteq> 0"
    "mSignatureMetadata typedUsrDescriptor AND 0x08 \<noteq> 0"
    "mSignatureMetadata typedUsrDescriptor AND 0x10 = 0"
    using Create_signatureMetadata [OF run] slots by auto
  have run': "Create (contextAt 16) aosp_macros voidUsrKernel = Inr (Some voidUsrDescriptor, [])"
    by code_simp
  have v': "validateAndConstructParams (contextAt 16) aosp_macros voidUsrKernel
       (RSExportForEach_new (FD_getName voidUsrKernel)) = Inr (True, ?FE0, [])"
    by code_simp
  have usr: "mUsrData ?FE0 = Some (param ''usr'' (constPtr VoidTy))" by simp
  have pointee: "getPointeeType (PVD_getType (param ''usr'' (constPtr VoidTy)))
                   = Some (QualType True False VoidTy)"
    by (simp add: getPointeeType_def param_def constPtr_def)
  have void: "getUnqualifiedType (QualType True False VoidTy) = C_VoidTy"
    by (simp add: getUnqualifiedType_def C_VoidTy_def)
  from Create_signatureMetadata [OF run'] obtain FE0 where
    r0: "validateAndConstructParams (contextAt 16) aosp_macros voidUsrKernel
           (RSExportForEach_new (FD_getName voidUsrKernel)) = Inr (True, FE0, [])"
    and cleared: "mUsrData voidUsrDescriptor =
              (if \<exists>PVD P. mUsrData FE0 = Some PVD \<and> getPointeeType (PVD_getType PVD) = Some P \<and>
                          getUnqualifiedType P = C_VoidTy
               then None else mUsrData FE0)"
    and bit: "(mSignatureMetadata voidUsrDescriptor AND 0x04 \<noteq> 0) = (mUsrData FE0 \<noteq> None)"
    by blast
  have FE0: "FE0 = ?FE0" using r0 v' by simp
  have "\<exists>PVD P. mUsrData FE0 = Some PVD \<and> getPointeeType (PVD_getType PVD) = Some P \<and>
                 getUnqualifiedType P = C_VoidTy"
    unfolding FE0 using usr pointee void by blast
  then have empty: "mUsrData voidUsrDescriptor = None" using cleared by simp
  have set4: "mSignatureMetadata voidUsrDescriptor AND 0x04 \<noteq> 0"
    using bit unfolding FE0 by simp
  show ?thesis using run slots typed run' v' pointee void empty set4 by simp
qed

text \<open>
  C1 as stated fails: for \<open>foo(const int *in, int *out, const void *usr)\<close> the returned
  descriptor has an empty UserData slot and the bit 0x04 set.
\<close>

theorem void_usrData_keeps_bit:
  "Create (contextAt 16) aosp_macros voidUsrKernel = Inr (Some voidUsrDescriptor, []) \<and>
   mUsrData voidUsrDescriptor = None \<and>
   mSignatureMetadata voidUsrDescriptor AND 0x04 = 0x04"
proof -
  have run: "Create (contextAt 16) aosp_macros voidUsrKernel = Inr (Some voidUsrDescriptor, [])"
    by code_simp
  moreover have "mUsrData voidUsrDescriptor = None"
    "mSignatureMetadata voidUsrDescriptor AND 0x04 = 0x04"
    by (simp_all add: voidUsrDescriptor_def RSExportForEach_new_def)
  ultimately show ?thesis by simp
qed

text \<open>
  C2, as the code has it. When a run on a fresh descriptor gets past the root-name check
  of lines 65-77 and leaves Input and Output empty, it fails (and \<open>Create\<close> returns no
  descriptor); its diagnostics start with the return-type error, if the return type is
  not void, and the "must have at least one parameter for in or out" error. Scanning is
  not skipped: UserData stays empty because position 0 holds no pointer, but the
  coordinate loop runs over every parameter from position 0 on, assigns CoordX and CoordY
  and reports further parameters; the descriptor and the diagnostics are those of that
  loop, followed by the compatibility check on the bitmask 0.
\<close>

theorem no_in_or_out_still_scans:
  assumes run: "validateAndConstructParams Context V FD (RSExportForEach_new N) = Inr (ok, FE, ds)"
    and jbOk: "\<not> (getTargetAPI Context < SLANG_JB_TARGET_API V \<and> \<not> isRootRSFunc FD)"
    and none: "mIn FE = None" "mOut FE = None"
  defines "pre \<equiv> (if FD_getResultType FD \<noteq> C_VoidTy
                    then [KernelMustReturnVoid (FD_getName FD)] else [])
                   @ [KernelMustHaveInOrOut (FD_getName FD)]"
  defines "s \<equiv> scanParams FD \<lparr> st_valid = False, st_i = 0,
                   st_this = (RSExportForEach_new N)\<lparr> numParams := getNumParams FD \<rparr>,
                   st_diags = pre \<rparr>"
  shows "\<not> ok \<and>
         (\<exists>rest. ds = pre @ rest) \<and>
         FE = (st_this s)\<lparr> mSignatureMetadata := 0 \<rparr> \<and>
         ds = st_diags s @
                (if getTargetAPI Context < SLANG_ICS_TARGET_API V
                 then [MayNotSkipParameters (FD_getName FD) (SLANG_MINIMUM_TARGET_API V)
                         (SLANG_ICS_TARGET_API V - 1)]
                 else []) \<and>
         mUsrData FE = None \<and>
         (N = FD_getName FD \<and> N \<noteq> [] \<longrightarrow> Create Context V FD = Inr (None, ds))"
proof -
  define s1 where "s1 = checkUsrData FD (checkInOrOut FD (checkOut FD (checkIn FD
                   (checkReturnType FD (initState FD (RSExportForEach_new N))))))"
  define sf where "sf = shapeChecks FD (initState FD (RSExportForEach_new N))"
  define m where "m = (if st_valid sf then roleMask (st_this sf) else 0)"
  define skip where "skip = (getTargetAPI Context < SLANG_ICS_TARGET_API V \<and> m \<notin> legacyMasks)"
  define d' where "d' = MayNotSkipParameters (FD_getName FD)
                      (SLANG_MINIMUM_TARGET_API V) (SLANG_ICS_TARGET_API V - 1)"
  have ne: "FD_params FD \<noteq> []" using run by (rule validate_Inr(1))
  have res: "FE = (st_this sf)\<lparr> mSignatureMetadata := m \<rparr>"
    "ds = st_diags sf @ (if skip then [d'] else [])" "ok = (st_valid sf \<and> \<not> skip)"
    using validate_Inr(3) [OF run jbOk] by (simp_all add: Let_def sf_def m_def skip_def d'_def)
  have sf: "sf = scanParams FD s1" by (simp add: sf_def s1_def shapeChecks_def)
  have "mIn (st_this s1) = None" "mOut (st_this s1) = None"
    using none res(1) by (simp_all add: sf)
  then have s1: "s1 = \<lparr> st_valid = False, st_i = 0,
                   st_this = (RSExportForEach_new N)\<lparr> numParams := getNumParams FD \<rparr>,
                   st_diags = pre \<rparr>"
    unfolding s1_def pre_def
    by (intro preScan_no_in_or_out [OF ne]) (simp_all add: RSExportForEach_new_def)
  then have sfs: "sf = s" by (simp add: sf s_def)
  obtain more where more: "st_diags s = pre @ more" "st_valid s = (False \<and> more = [])"
    using scanParams_effect [of FD s1] unfolding sf [symmetric] sfs by (auto simp add: s1)
  have nv: "\<not> st_valid s" using more by simp
  then have m0: "m = 0" by (simp add: m_def sfs)
  then have sk: "skip = (getTargetAPI Context < SLANG_ICS_TARGET_API V)" by (simp add: skip_def)
  have usr: "mUsrData FE = None"
    using res(1) by (simp add: sfs s_def RSExportForEach_new_def)
  have nok: "\<not> ok" using res(3) nv by (simp add: sfs)
  have cr: "N = FD_getName FD \<and> N \<noteq> [] \<longrightarrow> Create Context V FD = Inr (None, ds)"
    using run nok by (auto simp add: Create_def Let_def)
  show ?thesis
    using nok more res(1,2) usr cr unfolding sfs m0 sk d'_def by auto
qed

theorem no_in_or_out_still_scans_witness:
  "validateAndConstructParams (contextAt 16) aosp_macros
       ((kernel ''foo'' [param ''a'' C_UnsignedIntTy])\<lparr> FD_getResultType := C_IntTy \<rparr>)
       (RSExportForEach_new ''foo'')
     = Inr (False,
            (RSExportForEach_new ''foo'')\<lparr> numParams := 1,
               mX := Some (param ''a'' C_UnsignedIntTy) \<rparr>,
            [KernelMustReturnVoid ''foo'', KernelMustHaveInOrOut ''foo'']) \<and>
   Create (contextAt 16) aosp_macros
       ((kernel ''foo'' [param ''a'' C_UnsignedIntTy])\<lparr> FD_getResultType := C_IntTy \<rparr>)
     = Inr (None, [KernelMustReturnVoid ''foo'', KernelMustHaveInOrOut ''foo''])"
proof -
  let ?FD = "(kernel ''foo'' [param ''a'' C_UnsignedIntTy])\<lparr> FD_getResultType := C_IntTy \<rparr>"
  let ?FE = "(RSExportForEach_new ''foo'')\<lparr> numParams := 1,
               mX := Some (param ''a'' C_UnsignedIntTy) \<rparr>"
  let ?ds = "[KernelMustReturnVoid ''foo'', KernelMustHaveInOrOut ''foo'']"
  have run: "validateAndConstructParams (contextAt 16) aosp_macros ?FD
       (RSExportForEach_new ''foo'') = Inr (False, ?FE, ?ds)"
    by code_simp
  have jbOk: "\<not> (getTargetAPI (contextAt 16) < SLANG_JB_TARGET_API aosp_macros \<and> \<not> isRootRSFunc ?FD)"
    by (simp add: contextAt_def aosp_macros_def)
  have none: "mIn ?FE = None" "mOut ?FE = None" by (simp_all add: RSExportForEach_new_def)
  from no_in_or_out_still_scans [OF run jbOk none] run
  show ?thesis by (simp add: kernel_def)
qed

text \<open>
  C2 as stated fails: in \<open>foo(unsigned a, float f)\<close> neither Input nor Output is
  assigned, and still \<open>a\<close> is assigned to CoordX and \<open>f\<close> is reported.
\<close>

theorem scan_goes_on_without_in_or_out:
  "validateAndConstructParams (contextAt 16) aosp_macros
       (kernel ''foo'' [param ''a'' C_UnsignedIntTy,
                        param ''f'' (QualType False False (OtherTy ''float''))])
       (RSExportForEach_new ''foo'')
     = Inr (False,
            (RSExportForEach_new ''foo'')\<lparr> numParams := 2,
               mIn := None, mOut := None,
               mX := Some (param ''a'' C_UnsignedIntTy) \<rparr>,
            [KernelMustHaveInOrOut ''foo'',
             UnexpectedKernelParameter ''foo'' ''f'' (QualType False False (OtherTy ''float''))])"
  by code_simp

text \<open>
  C3, as the code has it. In the coordinate loop, an unsigned-integer parameter named
  neither \<open>x\<close> nor \<open>y\<close> is assigned to CoordX if CoordX and CoordY are both empty,
  otherwise to CoordY if CoordY is empty, and otherwise it is reported as unexpected: so
  it is rejected whenever CoordY is already assigned, also when CoordX is still empty.
  The loop then goes on with the next parameter.
\<close>

theorem scan_unnamed_coordinate:
  assumes more: "st_i s < numParams (st_this s)"
    and PVD: "PVD = FD_params FD ! st_i s"
    and uint: "getUnqualifiedType (PVD_getType PVD) = C_UnsignedIntTy"
    and name: "PVD_getName PVD \<noteq> ''x''" "PVD_getName PVD \<noteq> ''y''"
  defines "s' \<equiv>
     (if mX (st_this s) = None \<and> mY (st_this s) = None
      then s\<lparr> st_this := (st_this s)\<lparr> mX := Some PVD \<rparr> \<rparr>
      else if mY (st_this s) = None
      then s\<lparr> st_this := (st_this s)\<lparr> mY := Some PVD \<rparr> \<rparr>
      else s\<lparr> st_valid := False,
              st_diags := st_diags s @ [UnexpectedKernelParameter (FD_getName FD)
                                          (PVD_getName PVD) (PVD_getType PVD)] \<rparr>)"
  shows "scanParam FD PVD s = s' \<and>
         scanParams FD s = scanParams FD (s'\<lparr> st_i := st_i s + 1 \<rparr>)"
proof -
  have body: "scanParam FD PVD s = s'"
    using uint name by (simp add: scanParam_def s'_def invalidate_def report_def Let_def)
  have "scanParams FD s = scanParams FD ((scanParam FD PVD s)\<lparr> st_i := st_i s + 1 \<rparr>)"
    unfolding PVD using more by (rule scanParams_step)
  with body show ?thesis by simp
qed

theorem scan_unnamed_coordinate_witness:
  "scanParam (kernel ''foo'' [param ''in'' (constPtr IntTy), param ''y'' C_UnsignedIntTy,
                              param ''a'' C_UnsignedIntTy])
       (param ''a'' C_UnsignedIntTy)
       \<lparr> st_valid = True, st_i = 2,
         st_this = (RSExportForEach_new ''foo'')\<lparr> numParams := 3,
                      mIn := Some (param ''in'' (constPtr IntTy)),
                      mY := Some (param ''y'' C_UnsignedIntTy) \<rparr>,
         st_diags = [] \<rparr>
     = \<lparr> st_valid = False, st_i = 2,
         st_this = (RSExportForEach_new ''foo'')\<lparr> numParams := 3,
                      mIn := Some (param ''in'' (constPtr IntTy)),
                      mY := Some (param ''y'' C_UnsignedIntTy) \<rparr>,
         st_diags = [UnexpectedKernelParameter ''foo'' ''a'' C_UnsignedIntTy] \<rparr>"
proof -
  let ?FD = "kernel ''foo'' [param ''in'' (constPtr IntTy), param ''y'' C_UnsignedIntTy,
                              param ''a'' C_UnsignedIntTy]"
  let ?s = "\<lparr> st_valid = True, st_i = 2,
         st_this = (RSExportForEach_new ''foo'')\<lparr> numParams := 3,
                      mIn := Some (param ''in'' (constPtr IntTy)),
                      mY := Some (param ''y'' C_UnsignedIntTy) \<rparr>,
         st_diags = [] \<rparr>"
  have more: "st_i ?s < numParams (st_this ?s)" by simp
  have PVD: "param ''a'' C_UnsignedIntTy = FD_params ?FD ! st_i ?s" by (simp add: kernel_def)
  have uint: "getUnqualifiedType (PVD_getType (param ''a'' C_UnsignedIntTy)) = C_UnsignedIntTy"
    by (simp add: param_def getUnqualifiedType_def C_UnsignedIntTy_def)
  have name: "PVD_getName (param ''a'' C_UnsignedIntTy) \<noteq> ''x''"
    "PVD_getName (param ''a'' C_UnsignedIntTy) \<noteq> ''y''"
    by (simp_all add: param_def)
  from scan_unnamed_coordinate [OF more PVD uint name]
  show ?thesis by (simp add: kernel_def param_def RSExportForEach_new_def)
qed

text \<open>
  C3 as stated fails: in \<open>foo(const int *in, unsigned y, unsigned a)\<close> the parameter \<open>a\<close>
  meets an empty CoordX and an assigned CoordY; it is reported, and CoordX stays empty.
\<close>

theorem unnamed_after_y_rejected:
  "validateAndConstructParams (contextAt 16) aosp_macros
       (kernel ''foo'' [param ''in'' (constPtr IntTy), param ''y'' C_UnsignedIntTy,
                        param ''a'' C_UnsignedIntTy])
       (RSExportForEach_new ''foo'')
     = Inr (False,
            (RSExportForEach_new ''foo'')\<lparr> numParams := 3,
               mIn := Some (param ''in'' (constPtr IntTy)),
               mX := None,
               mY := Some (param ''y'' C_UnsignedIntTy) \<rparr>,
            [UnexpectedKernelParameter ''foo'' ''a'' C_UnsignedIntTy])"
  by code_simp

text \<open>
  C4, as the code has it. A run that records an error other than the "may not skip
  parameters" rejection leaves the bitmask at 0. A run that records no error, or only
  that rejection, leaves the encoding of the role slots in the bitmask, and this encoding
  is not 0: the compatibility check reads the bitmask after it has been computed and
  does not reset it.
\<close>

theorem signatureMetadata_zero_on_shape_failure:
  assumes run: "validateAndConstructParams Context V FD (RSExportForEach_new N) = Inr (ok, FE, ds)"
  shows "mSignatureMetadata FE = (if list_all isSkipError ds then roleMask FE else 0) \<and>
         (list_all isSkipError ds \<longrightarrow> mSignatureMetadata FE \<noteq> 0)"
proof (cases "getTargetAPI Context < SLANG_JB_TARGET_API V \<and> \<not> isRootRSFunc FD")
  case True
  from validate_Inr(2) [OF run True] show ?thesis by (simp add: RSExportForEach_new_def)
next
  case False
  define s where "s = shapeChecks FD (initState FD (RSExportForEach_new N))"
  define m where "m = (if st_valid s then roleMask (st_this s) else 0)"
  define skip where "skip = (getTargetAPI Context < SLANG_ICS_TARGET_API V \<and> m \<notin> legacyMasks)"
  define d' where "d' = MayNotSkipParameters (FD_getName FD)
                      (SLANG_MINIMUM_TARGET_API V) (SLANG_ICS_TARGET_API V - 1)"
  have res: "FE = (st_this s)\<lparr> mSignatureMetadata := m \<rparr>"
    "ds = st_diags s @ (if skip then [d'] else [])" "ok = (st_valid s \<and> \<not> skip)"
    using validate_Inr(3) [OF run False] by (simp_all add: Let_def s_def m_def skip_def d'_def)
  have inv: "st_valid s = (st_diags s = [])" "\<forall>d\<in>set (st_diags s). isShapeError d"
    "st_valid s \<Longrightarrow> mIn (st_this s) \<noteq> None \<or> mOut (st_this s) \<noteq> None"
    unfolding s_def by (rule shapeChecks_effect)+
  show ?thesis
  proof (cases "st_valid s")
    case True
    then have "st_diags s = []" using inv by simp
    moreover have "roleMask (st_this s) \<noteq> 0" using inv(3) [OF True] by (rule roleMask_nonzero)
    ultimately show ?thesis using True res by (simp add: m_def d'_def)
  next
    case nv: False
    then obtain d rest where "st_diags s = d # rest" using inv(1) by (cases "st_diags s") auto
    moreover from this have "isShapeError d" using inv(2) by simp
    ultimately have "\<not> list_all isSkipError (st_diags s)"
      using shapeError_not_skip by auto
    then have "\<not> list_all isSkipError ds" using res by simp
    moreover have "mSignatureMetadata FE = 0" using nv res by (simp add: m_def)
    ultimately show ?thesis by simp
  qed
qed



theorem signatureMetadata_zero_on_shape_failure_witness:
  "validateAndConstructParams (contextAt 16) aosp_macros
       (kernel ''foo'' [param ''f'' (QualType False False (OtherTy ''float''))])
       (RSExportForEach_new ''foo'')
     = Inr (False, (RSExportForEach_new ''foo'')\<lparr> numParams := 1 \<rparr>,
            [KernelMustHaveInOrOut ''foo'',
             UnexpectedKernelParameter ''foo'' ''f'' (QualType False False (OtherTy ''float''))]) \<and>
   mSignatureMetadata ((RSExportForEach_new ''foo'')\<lparr> numParams := 1 \<rparr>) = 0"
proof -
  let ?FE = "(RSExportForEach_new ''foo'')\<lparr> numParams := 1 \<rparr>"
  let ?ds = "[KernelMustHaveInOrOut ''foo'',
              UnexpectedKernelParameter ''foo'' ''f'' (QualType False False (OtherTy ''float''))]"
  have run: "validateAndConstructParams (contextAt 16) aosp_macros
       (kernel ''foo'' [param ''f'' (QualType False False (OtherTy ''float''))])
       (RSExportForEach_new ''foo'') = Inr (False, ?FE, ?ds)"
    by code_simp
  from signatureMetadata_zero_on_shape_failure [OF run] run
  show ?thesis by simp
qed

text \<open>
  C4 as stated fails: \<open>root(const int *in, unsigned x)\<close> for API 11 is rejected by the
  compatibility check, and its bitmask stays at 0x09.
\<close>

theorem skip_rejection_keeps_signatureMetadata:
  "validateAndConstructParams (contextAt 11) aosp_macros
       (kernel ''root'' [param ''in'' (constPtr IntTy), param ''x'' C_UnsignedIntTy])
       (RSExportForEach_new ''root'')
     = Inr (False,
            (RSExportForEach_new ''root'')\<lparr> numParams := 2, mSignatureMetadata := 0x09,
               mIn := Some (param ''in'' (constPtr IntTy)),
               mX := Some (param ''x'' C_UnsignedIntTy) \<rparr>,
            [MayNotSkipParameters ''root'' 11 13])"
  by code_simp

text \<open>
  C5. Below \<open>SLANG_ICS_TARGET_API\<close> a run on a fresh descriptor succeeds exactly when its
  bitmask is one of 0x01, 0x03, 0x07, 0x0F, 0x1F, and (for a function that got past the
  root-name check of lines 65-77) the "may not skip parameters" diagnostic is reported
  exactly when it is not. From \<open>SLANG_ICS_TARGET_API\<close> on, that diagnostic is never
  reported, and the run succeeds exactly when nothing was reported.
\<close>

theorem legacy_skip_check:
  assumes run: "validateAndConstructParams Context V FD (RSExportForEach_new N) = Inr (ok, FE, ds)"
  shows "(getTargetAPI Context < SLANG_ICS_TARGET_API V \<longrightarrow>
            ok = (mSignatureMetadata FE \<in> {0x01, 0x03, 0x07, 0x0F, 0x1F})) \<and>
         (getTargetAPI Context < SLANG_ICS_TARGET_API V \<and>
          \<not> (getTargetAPI Context < SLANG_JB_TARGET_API V \<and> \<not> isRootRSFunc FD) \<longrightarrow>
            (MayNotSkipParameters (FD_getName FD) (SLANG_MINIMUM_TARGET_API V)
                (SLANG_ICS_TARGET_API V - 1) \<in> set ds)
            = (mSignatureMetadata FE \<notin> {0x01, 0x03, 0x07, 0x0F, 0x1F})) \<and>
         (SLANG_ICS_TARGET_API V \<le> getTargetAPI Context \<longrightarrow>
            \<not> list_ex isSkipError ds \<and> ok = (ds = []))"
proof (cases "getTargetAPI Context < SLANG_JB_TARGET_API V \<and> \<not> isRootRSFunc FD")
  case True
  from validate_Inr(2) [OF run True] show ?thesis
    using True by (simp add: RSExportForEach_new_def)
next
  case False
  define s where "s = shapeChecks FD (initState FD (RSExportForEach_new N))"
  define m where "m = (if st_valid s then roleMask (st_this s) else 0)"
  define skip where "skip = (getTargetAPI Context < SLANG_ICS_TARGET_API V \<and> m \<notin> legacyMasks)"
  define d' where "d' = MayNotSkipParameters (FD_getName FD)
                      (SLANG_MINIMUM_TARGET_API V) (SLANG_ICS_TARGET_API V - 1)"
  have res: "FE = (st_this s)\<lparr> mSignatureMetadata := m \<rparr>"
    "ds = st_diags s @ (if skip then [d'] else [])" "ok = (st_valid s \<and> \<not> skip)"
    using validate_Inr(3) [OF run False] by (simp_all add: Let_def s_def m_def skip_def d'_def)
  have inv: "st_valid s = (st_diags s = [])" "\<forall>d\<in>set (st_diags s). isShapeError d"
    unfolding s_def by (rule shapeChecks_effect)+
  have mask: "mSignatureMetadata FE = m" using res by simp
  have lm: "legacyMasks = {0x01, 0x03, 0x07, 0x0F, 0x1F}" by (simp add: legacyMasks_def)
  have valid_of_legacy: "m \<in> legacyMasks \<Longrightarrow> st_valid s"
    by (cases "st_valid s") (simp_all add: m_def)
  have noskip: "\<not> list_ex isSkipError (st_diags s)"
    using inv(2) shapeError_not_skip by (auto simp add: list_ex_iff)
  have d'_notin: "d' \<notin> set (st_diags s)"
    using inv(2) by (auto simp add: d'_def)
  have c1: "getTargetAPI Context < SLANG_ICS_TARGET_API V \<Longrightarrow> ok = (m \<in> legacyMasks)"
    using res(3) valid_of_legacy by (auto simp add: skip_def)
  have c2: "getTargetAPI Context < SLANG_ICS_TARGET_API V \<Longrightarrow> (d' \<in> set ds) = (m \<notin> legacyMasks)"
    using res(2) d'_notin by (auto simp add: skip_def)
  have c3: "SLANG_ICS_TARGET_API V \<le> getTargetAPI Context \<Longrightarrow>
              \<not> list_ex isSkipError ds \<and> ok = (ds = [])"
    using res noskip inv(1) by (simp add: skip_def)
  show ?thesis using c1 c2 c3 unfolding mask lm d'_def by blast
qed

theorem legacy_skip_check_witness:
  "getTargetAPI (contextAt 11) < SLANG_ICS_TARGET_API aosp_macros \<and>
   validateAndConstructParams (contextAt 11) aosp_macros
       (kernel ''root'' [param ''in'' (constPtr IntTy), param ''out'' (mutPtr IntTy),
                         param ''x'' C_UnsignedIntTy])
       (RSExportForEach_new ''root'')
     = Inr (False,
            (RSExportForEach_new ''root'')\<lparr> numParams := 3, mSignatureMetadata := 0x0B,
               mIn := Some (param ''in'' (constPtr IntTy)),
               mOut := Some (param ''out'' (mutPtr IntTy)),
               mX := Some (param ''x'' C_UnsignedIntTy) \<rparr>,
            [MayNotSkipParameters ''root'' 11 13]) \<and>
   (0x0B :: 32 word) \<notin> {0x01, 0x03, 0x07, 0x0F, 0x1F} \<and>
   validateAndConstructParams (contextAt 11) aosp_macros
       (kernel ''root'' [param ''in'' (constPtr IntTy), param ''out'' (mutPtr IntTy),
                         param ''usr'' (constPtr IntTy)])
       (RSExportForEach_new ''root'')
     = Inr (True,
            (RSExportForEach_new ''root'')\<lparr> numParams := 3, mSignatureMetadata := 0x07,
               mIn := Some (param ''in'' (constPtr IntTy)),
               mOut := Some (param ''out'' (mutPtr IntTy)),
               mUsrData := Some (param ''usr'' (constPtr IntTy)) \<rparr>,
            []) \<and>
   (0x07 :: 32 word) \<in> {0x01, 0x03, 0x07, 0x0F, 0x1F}"
proof -
  let ?FD = "kernel ''root'' [param ''in'' (constPtr IntTy), param ''out'' (mutPtr IntTy),
                         param ''x'' C_UnsignedIntTy]"
  let ?FE = "(RSExportForEach_new ''root'')\<lparr> numParams := 3, mSignatureMetadata := 0x0B,
               mIn := Some (param ''in'' (constPtr IntTy)),
               mOut := Some (param ''out'' (mutPtr IntTy)),
               mX := Some (param ''x'' C_UnsignedIntTy) \<rparr>"
  let ?FD' = "kernel ''root'' [param ''in'' (constPtr IntTy), param ''out'' (mutPtr IntTy),
                         param ''usr'' (constPtr IntTy)]"
  let ?FE' = "(RSExportForEach_new ''root'')\<lparr> numParams := 3, mSignatureMetadata := 0x07,
               mIn := Some (param ''in'' (constPtr IntTy)),
               mOut := Some (param ''out'' (mutPtr IntTy)),
               mUsrData := Some (param ''usr'' (constPtr IntTy)) \<rparr>"
  have run: "validateAndConstructParams (contextAt 11) aosp_macros ?FD
       (RSExportForEach_new ''root'') = Inr (False, ?FE, [MayNotSkipParameters ''root'' 11 13])"
    by code_simp
  have run': "validateAndConstructParams (contextAt 11) aosp_macros ?FD'
       (RSExportForEach_new ''root'') = Inr (True, ?FE', [])"
    by code_simp
  have old: "getTargetAPI (contextAt 11) < SLANG_ICS_TARGET_API aosp_macros"
    by (simp add: contextAt_def aosp_macros_def)
  from legacy_skip_check [OF run] legacy_skip_check [OF run'] old run run'
  show ?thesis by simp
qed

text \<open>
  C6, as the code has it. For a function that gets past the root-name check of lines
  65-77 (the target API is at least \<open>SLANG_JB_TARGET_API\<close>, or the function is named
  \<open>root\<close>), returns void and has the parameters (pointer to const, pointer to non-const,
  pointer to const, unsigned named \<open>x\<close>, unsigned named \<open>y\<close>), the run on a fresh
  descriptor succeeds without a diagnostic, the bitmask is 0x1F and the five slots hold
  the five parameters in this order.
\<close>

theorem full_signature_classified:
  assumes jbOk: "\<not> (getTargetAPI Context < SLANG_JB_TARGET_API V \<and> \<not> isRootRSFunc FD)"
    and ret: "FD_getResultType FD = C_VoidTy"
    and ps: "FD_params FD = [p0, p1, p2, p3, p4]"
    and p0: "isPointerToConst (PVD_getType p0)"
    and p1: "isPointerToNonConst (PVD_getType p1)"
    and p2: "isPointerToConst (PVD_getType p2)"
    and p3: "getUnqualifiedType (PVD_getType p3) = C_UnsignedIntTy" "PVD_getName p3 = ''x''"
    and p4: "getUnqualifiedType (PVD_getType p4) = C_UnsignedIntTy" "PVD_getName p4 = ''y''"
  shows "validateAndConstructParams Context V FD (RSExportForEach_new N) =
           Inr (True,
                (RSExportForEach_new N)\<lparr> numParams := 5, mSignatureMetadata := 0x1F,
                   mIn := Some p0, mOut := Some p1, mUsrData := Some p2,
                   mX := Some p3, mY := Some p4 \<rparr>,
                [])"
proof -
  define FE0 where "FE0 = (RSExportForEach_new N)\<lparr> numParams := 5 \<rparr>"
  define s0 where "s0 = \<lparr> st_valid = True, st_i = 0, st_this = FE0, st_diags = [] \<rparr>"
  have n: "getNumParams FD = 5" using ps by (simp add: getNumParams_def)
  have init: "initState FD (RSExportForEach_new N) = s0"
    by (simp add: initState_def s0_def FE0_def n)
  have fresh: "mIn FE0 = None" "mOut FE0 = None" "mUsrData FE0 = None" "mX FE0 = None"
    "mY FE0 = None" "numParams FE0 = 5"
    by (simp_all add: FE0_def RSExportForEach_new_def)
  have s1: "checkReturnType FD s0 = s0" using ret by (simp add: checkReturnType_def)
  define s2 where "s2 = s0\<lparr> st_this := FE0\<lparr> mIn := Some p0 \<rparr>, st_i := 1 \<rparr>"
  have c2: "checkIn FD s0 = s2" using ps p0 by (simp add: checkIn_def s0_def s2_def Let_def)
  define s3 where "s3 = s0\<lparr> st_this := FE0\<lparr> mIn := Some p0, mOut := Some p1 \<rparr>, st_i := 2 \<rparr>"
  have c3: "checkOut FD s2 = s3"
    using ps p1 fresh by (simp add: checkOut_def s0_def s2_def s3_def Let_def)
  have c4: "checkInOrOut FD s3 = s3" by (simp add: checkInOrOut_def s3_def s0_def)
  define s5 where "s5 = s0\<lparr> st_this := FE0\<lparr> mIn := Some p0, mOut := Some p1, mUsrData := Some p2 \<rparr>,
                            st_i := 3 \<rparr>"
  have c5: "checkUsrData FD s3 = s5"
    using ps p2 fresh by (simp add: checkUsrData_def s0_def s3_def s5_def Let_def)
  define s6 where "s6 = s0\<lparr> st_this := FE0\<lparr> mIn := Some p0, mOut := Some p1, mUsrData := Some p2,
                                              mX := Some p3 \<rparr>, st_i := 4 \<rparr>"
  have b6: "scanParam FD p3 s5 = s5\<lparr> st_this := (st_this s5)\<lparr> mX := Some p3 \<rparr> \<rparr>"
    using p3 fresh by (simp add: scanParam_def s5_def s0_def Let_def)
  have c6: "scanParams FD s5 = scanParams FD s6"
    using ps fresh b6 by (subst scanParams.simps) (simp add: s5_def s6_def s0_def)
  define s7 where "s7 = s0\<lparr> st_this := FE0\<lparr> mIn := Some p0, mOut := Some p1, mUsrData := Some p2,
                                              mX := Some p3, mY := Some p4 \<rparr>, st_i := 5 \<rparr>"
  have b7: "scanParam FD p4 s6 = s6\<lparr> st_this := (st_this s6)\<lparr> mY := Some p4 \<rparr> \<rparr>"
    using p4 fresh by (simp add: scanParam_def s6_def s0_def Let_def)
  have c7: "scanParams FD s6 = scanParams FD s7"
    using ps fresh b7 by (subst scanParams.simps) (simp add: s6_def s7_def s0_def)
  have c8: "scanParams FD s7 = s7"
    using fresh by (subst scanParams.simps) (simp add: s7_def s0_def)
  have shape: "shapeChecks FD (initState FD (RSExportForEach_new N)) = s7"
    by (simp add: shapeChecks_def init s1 c2 c3 c4 c5 c6 c7 c8)
  have rm: "roleMask (st_this s7) = 0x1F" by (simp add: roleMask_def s7_def s0_def)
  have legacy: "(0x1F :: 32 word) \<in> legacyMasks" by (simp add: legacyMasks_def)
  have ne: "FD_params FD \<noteq> []" using ps by simp
  show ?thesis
    using jbOk ne
    by (simp add: validate_unfold shape setSignatureMetadata_eq checkSkipParams_eq rm legacy
        Let_def) (simp add: s7_def s0_def FE0_def RSExportForEach_new_def)
qed

theorem full_signature_classified_witness:
  "validateAndConstructParams (contextAt 16) aosp_macros
       (kernel ''foo'' [param ''in'' (constPtr IntTy), param ''out'' (mutPtr IntTy),
                        param ''usr'' (constPtr IntTy), param ''x'' C_UnsignedIntTy,
                        param ''y'' C_UnsignedIntTy])
       (RSExportForEach_new ''foo'')
     = Inr (True,
            (RSExportForEach_new ''foo'')\<lparr> numParams := 5, mSignatureMetadata := 0x1F,
               mIn := Some (param ''in'' (constPtr IntTy)),
               mOut := Some (param ''out'' (mutPtr IntTy)),
               mUsrData := Some (param ''usr'' (constPtr IntTy)),
               mX := Some (param ''x'' C_UnsignedIntTy),
               mY := Some (param ''y'' C_UnsignedIntTy) \<rparr>,
            [])"
proof -
  let ?FD = "kernel ''foo'' [param ''in'' (constPtr IntTy), param ''out'' (mutPtr IntTy),
                        param ''usr'' (constPtr IntTy), param ''x'' C_UnsignedIntTy,
                        param ''y'' C_UnsignedIntTy]"
  have jbOk: "\<not> (getTargetAPI (contextAt 16) < SLANG_JB_TARGET_API aosp_macros \<and> \<not> isRootRSFunc ?FD)"
    by (simp add: contextAt_def aosp_macros_def)
  have ret: "FD_getResultType ?FD = C_VoidTy" by (simp add: kernel_def)
  have ps: "FD_params ?FD = [param ''in'' (constPtr IntTy), param ''out'' (mutPtr IntTy),
                        param ''usr'' (constPtr IntTy), param ''x'' C_UnsignedIntTy,
                        param ''y'' C_UnsignedIntTy]" by (simp add: kernel_def)
  have p0: "isPointerToConst (PVD_getType (param ''in'' (constPtr IntTy)))"
    by (simp add: param_def constPtr_def isPointerToConst_def isPointerType_def getPointeeType_def)
  have p1: "isPointerToNonConst (PVD_getType (param ''out'' (mutPtr IntTy)))"
    by (simp add: param_def mutPtr_def isPointerToNonConst_def isPointerType_def getPointeeType_def)
  have p2: "isPointerToConst (PVD_getType (param ''usr'' (constPtr IntTy)))"
    by (simp add: param_def constPtr_def isPointerToConst_def isPointerType_def getPointeeType_def)
  have p3: "getUnqualifiedType (PVD_getType (param ''x'' C_UnsignedIntTy)) = C_UnsignedIntTy"
    "PVD_getName (param ''x'' C_UnsignedIntTy) = ''x''"
    by (simp_all add: param_def getUnqualifiedType_def C_UnsignedIntTy_def)
  have p4: "getUnqualifiedType (PVD_getType (param ''y'' C_UnsignedIntTy)) = C_UnsignedIntTy"
    "PVD_getName (param ''y'' C_UnsignedIntTy) = ''y''"
    by (simp_all add: param_def getUnqualifiedType_def C_UnsignedIntTy_def)
  show ?thesis by (rule full_signature_classified [OF jbOk ret ps p0 p1 p2 p3 p4])
qed

text \<open>
  C6 as stated fails: below \<open>SLANG_JB_TARGET_API\<close> a function of this shape that is not
  named \<open>root\<close> is rejected before any parameter is looked at.
\<close>

theorem full_signature_rejected_before_jb:
  "validateAndConstructParams (contextAt 15) aosp_macros
       (kernel ''foo'' [param ''in'' (constPtr IntTy), param ''out'' (mutPtr IntTy),
                        param ''usr'' (constPtr IntTy), param ''x'' C_UnsignedIntTy,
                        param ''y'' C_UnsignedIntTy])
       (RSExportForEach_new ''foo'')
     = Inr (False, (RSExportForEach_new ''foo'')\<lparr> numParams := 5 \<rparr>,
            [NonRootKernelNotSupported ''foo'' 11 15])"
  by code_simp

text \<open>
  C7. In the coordinate loop, an unsigned-integer parameter named \<open>x\<close> that meets an
  assigned CoordX (however it was assigned) or an assigned CoordY is reported as a
  duplicate entry: no slot changes, the run is invalid from there on, and the diagnostic
  is among those of the finished loop.
\<close>

theorem scan_x_duplicate:
  assumes more: "st_i s < numParams (st_this s)"
    and PVD: "PVD = FD_params FD ! st_i s"
    and uint: "getUnqualifiedType (PVD_getType PVD) = C_UnsignedIntTy"
    and name: "PVD_getName PVD = ''x''"
    and taken: "mX (st_this s) \<noteq> None \<or> mY (st_this s) \<noteq> None"
  defines "s' \<equiv> s\<lparr> st_valid := False,
                     st_diags := st_diags s @ [DuplicateParameterEntry ''x''] \<rparr>"
  shows "scanParam FD PVD s = s' \<and>
         scanParams FD s = scanParams FD (s'\<lparr> st_i := st_i s + 1 \<rparr>) \<and>
         st_this (scanParam FD PVD s) = st_this s \<and>
         \<not> st_valid (scanParams FD s) \<and>
         DuplicateParameterEntry ''x'' \<in> set (st_diags (scanParams FD s))"
proof -
  have body: "scanParam FD PVD s = s'"
    using uint name taken
    by (auto simp add: scanParam_def s'_def invalidate_def report_def Let_def)
  have "scanParams FD s = scanParams FD ((scanParam FD PVD s)\<lparr> st_i := st_i s + 1 \<rparr>)"
    unfolding PVD using more by (rule scanParams_step)
  with body have loop: "scanParams FD s = scanParams FD (s'\<lparr> st_i := st_i s + 1 \<rparr>)" by simp
  obtain rest where rest:
    "st_diags (scanParams FD (s'\<lparr> st_i := st_i s + 1 \<rparr>)) = st_diags (s'\<lparr> st_i := st_i s + 1 \<rparr>) @ rest"
    "st_valid (scanParams FD (s'\<lparr> st_i := st_i s + 1 \<rparr>)) = (st_valid (s'\<lparr> st_i := st_i s + 1 \<rparr>) \<and> rest = [])"
    using scanParams_effect [of FD "s'\<lparr> st_i := st_i s + 1 \<rparr>"] by blast
  have "\<not> st_valid (scanParams FD s)" using loop rest by (simp add: s'_def)
  moreover have "DuplicateParameterEntry ''x'' \<in> set (st_diags (scanParams FD s))"
    using loop rest by (simp add: s'_def)
  moreover have "st_this (scanParam FD PVD s) = st_this s" using body by (simp add: s'_def)
  ultimately show ?thesis using body loop by simp
qed

theorem scan_x_duplicate_witness:
  "scanParam (kernel ''foo'' [param ''in'' (constPtr IntTy), param ''a'' C_UnsignedIntTy,
                              param ''x'' C_UnsignedIntTy])
       (param ''x'' C_UnsignedIntTy)
       \<lparr> st_valid = True, st_i = 2,
         st_this = (RSExportForEach_new ''foo'')\<lparr> numParams := 3,
                      mIn := Some (param ''in'' (constPtr IntTy)),
                      mX := Some (param ''a'' C_UnsignedIntTy) \<rparr>,
         st_diags = [] \<rparr>
     = \<lparr> st_valid = False, st_i = 2,
         st_this = (RSExportForEach_new ''foo'')\<lparr> numParams := 3,
                      mIn := Some (param ''in'' (constPtr IntTy)),
                      mX := Some (param ''a'' C_UnsignedIntTy) \<rparr>,
         st_diags = [DuplicateParameterEntry ''x''] \<rparr>"
proof -
  let ?FD = "kernel ''foo'' [param ''in'' (constPtr IntTy), param ''a'' C_UnsignedIntTy,
                              param ''x'' C_UnsignedIntTy]"
  let ?s = "\<lparr> st_valid = True, st_i = 2,
         st_this = (RSExportForEach_new ''foo'')\<lparr> numParams := 3,
                      mIn := Some (param ''in'' (constPtr IntTy)),
                      mX := Some (param ''a'' C_UnsignedIntTy) \<rparr>,
         st_diags = [] \<rparr>"
  have more: "st_i ?s < numParams (st_this ?s)" by simp
  have PVD: "param ''x'' C_UnsignedIntTy = FD_params ?FD ! st_i ?s" by (simp add: kernel_def)
  have uint: "getUnqualifiedType (PVD_getType (param ''x'' C_UnsignedIntTy)) = C_UnsignedIntTy"
    by (simp add: param_def getUnqualifiedType_def C_UnsignedIntTy_def)
  have name: "PVD_getName (param ''x'' C_UnsignedIntTy) = ''x''" by (simp add: param_def)
  have taken: "mX (st_this ?s) \<noteq> None \<or> mY (st_this ?s) \<noteq> None" by simp
  from scan_x_duplicate [OF more PVD uint name taken]
  show ?thesis by (simp add: kernel_def param_def RSExportForEach_new_def)
qed

text \<open>
  C8. The graphics-root predicate: the reserved root name, and either no parameter, or
  a target API below \<open>SLANG_ICS_TARGET_API\<close> with exactly one parameter and the return
  type \<open>int\<close>.
\<close>

theorem isGraphicsRootRSFunc_iff:
  "isGraphicsRootRSFunc V targetAPI FD =
     (isRootRSFunc FD \<and>
      (getNumParams FD = 0 \<or>
       (targetAPI < SLANG_ICS_TARGET_API V \<and> getNumParams FD = 1 \<and>
        FD_getResultType FD = C_IntTy)))"
  by (auto simp add: isGraphicsRootRSFunc_def)

text \<open>
  C9. When a shape error was recorded and the target API is below
  \<open>SLANG_ICS_TARGET_API\<close>, the bitmask is 0, which is none of the five values the
  compatibility check lets through, so the check fires as well: the run's diagnostics
  are the shape errors followed by the "may not skip parameters" diagnostic.
\<close>

theorem shape_error_triggers_skip_diagnostic:
  assumes run: "validateAndConstructParams Context V FD FE0 = Inr (ok, FE, ds)"
    and old: "getTargetAPI Context < SLANG_ICS_TARGET_API V"
    and err: "\<exists>d\<in>set ds. isShapeError d"
  shows "mSignatureMetadata FE = 0 \<and> \<not> ok \<and>
         (\<exists>shape. shape \<noteq> [] \<and> list_all isShapeError shape \<and>
            ds = shape @ [MayNotSkipParameters (FD_getName FD)
                   (SLANG_MINIMUM_TARGET_API V) (SLANG_ICS_TARGET_API V - 1)])"
proof -
  have jbOk: "\<not> (getTargetAPI Context < SLANG_JB_TARGET_API V \<and> \<not> isRootRSFunc FD)"
  proof
    assume "getTargetAPI Context < SLANG_JB_TARGET_API V \<and> \<not> isRootRSFunc FD"
    from validate_Inr(2) [OF run this] err show False by auto
  qed
  define s where "s = shapeChecks FD (initState FD FE0)"
  define m where "m = (if st_valid s then roleMask (st_this s) else 0)"
  define skip where "skip = (getTargetAPI Context < SLANG_ICS_TARGET_API V \<and> m \<notin> legacyMasks)"
  define d' where "d' = MayNotSkipParameters (FD_getName FD)
                      (SLANG_MINIMUM_TARGET_API V) (SLANG_ICS_TARGET_API V - 1)"
  have res: "FE = (st_this s)\<lparr> mSignatureMetadata := m \<rparr>"
    "ds = st_diags s @ (if skip then [d'] else [])" "ok = (st_valid s \<and> \<not> skip)"
    using validate_Inr(3) [OF run jbOk] by (simp_all add: Let_def s_def m_def skip_def d'_def)
  have inv: "st_valid s = (st_diags s = [])" "\<forall>d\<in>set (st_diags s). isShapeError d"
    unfolding s_def by (rule shapeChecks_effect)+
  have "st_diags s \<noteq> []"
  proof
    assume "st_diags s = []"
    then have "set ds \<subseteq> {d'}" using res by auto
    then show False using err by (auto simp add: d'_def)
  qed
  then have nv: "\<not> st_valid s" using inv by simp
  then have m0: "m = 0" by (simp add: m_def)
  then have sk: "skip" using old by (simp add: skip_def)
  have "list_all isShapeError (st_diags s)" using inv by (simp add: list_all_iff)
  then show ?thesis using res m0 sk nv \<open>st_diags s \<noteq> []\<close> by (auto simp add: d'_def)
qed

theorem shape_error_triggers_skip_diagnostic_witness:
  "getTargetAPI (contextAt 11) < SLANG_ICS_TARGET_API aosp_macros \<and>
   isShapeError (KernelMustHaveInOrOut ''root'') \<and>
   validateAndConstructParams (contextAt 11) aosp_macros
       (kernel ''root'' [param ''f'' (QualType False False (OtherTy ''float''))])
       (RSExportForEach_new ''root'')
     = Inr (False, (RSExportForEach_new ''root'')\<lparr> numParams := 1 \<rparr>,
            [KernelMustHaveInOrOut ''root'',
             UnexpectedKernelParameter ''root'' ''f'' (QualType False False (OtherTy ''float'')),
             MayNotSkipParameters ''root'' 11 13]) \<and>
   mSignatureMetadata ((RSExportForEach_new ''root'')\<lparr> numParams := 1 \<rparr>) = 0"
proof -
  let ?FE = "(RSExportForEach_new ''root'')\<lparr> numParams := 1 \<rparr>"
  let ?ds = "[KernelMustHaveInOrOut ''root'',
              UnexpectedKernelParameter ''root'' ''f'' (QualType False False (OtherTy ''float'')),
              MayNotSkipParameters ''root'' 11 13]"
  have run: "validateAndConstructParams (contextAt 11) aosp_macros
       (kernel ''root'' [param ''f'' (QualType False False (OtherTy ''float''))])
       (RSExportForEach_new ''root'') = Inr (False, ?FE, ?ds)"
    by code_simp
  have old: "getTargetAPI (contextAt 11) < SLANG_ICS_TARGET_API aosp_macros"
    by (simp add: contextAt_def aosp_macros_def)
  have err: "\<exists>d\<in>set ?ds. isShapeError d" by simp
  from shape_error_triggers_skip_diagnostic [OF run old err] run old
  show ?thesis by simp
qed

text \<open>
  C10. \<open>validateAndConstructParams\<close> returns a result exactly when the function has a
  parameter. On a function without parameters the assertion \<open>numParams > 0\<close> fails, in
  \<open>validateAndConstructParams\<close> and hence in \<open>Create\<close> (where the assertion on the name
  comes first), and no diagnostic is reported.
\<close>

theorem no_parameters_is_assertion:
  "((\<exists>r. validateAndConstructParams Context V FD FE = Inr r) = (FD_params FD \<noteq> [])) \<and>
   (FD_params FD = [] \<longrightarrow>
      validateAndConstructParams Context V FD FE = Inl (AssertionFailed ''numParams > 0'') \<and>
      Create Context V FD =
        Inl (AssertionFailed (if FD_getName FD = [] then ''Function must have a name''
                              else ''numParams > 0'')))"
  by (auto simp add: validate_unfold Create_def Let_def)

theorem no_parameters_is_assertion_witness:
  "FD_params (kernel ''foo'' []) = [] \<and>
   validateAndConstructParams (contextAt 16) aosp_macros (kernel ''foo'' [])
       (RSExportForEach_new ''foo'') = Inl (AssertionFailed ''numParams > 0'') \<and>
   Create (contextAt 16) aosp_macros (kernel ''foo'' []) = Inl (AssertionFailed ''numParams > 0'')"
  using no_parameters_is_assertion [of "contextAt 16" aosp_macros "kernel ''foo'' []"
      "RSExportForEach_new ''foo''"]
  by (simp add: kernel_def)

end
